theory Spec2Isabelle
  imports Main "HOL-Library.Word" "HOL-Library.AList"
begin

section \<open>Values of the JavaScript runtime\<close>

text \<open>
  A \<^verbatim>\<open>Uint8Array\<close> is a list of bytes. A value that is thrown, or that a promise is
  rejected with, is either an instance of \<^verbatim>\<open>Error\<close> carrying a message (\<^verbatim>\<open>TypeError\<close> is
  a subclass of it, raised by the runtime on a property access on \<^verbatim>\<open>undefined\<close>), or some
  other value. An asynchronous function is a function on the world that returns either
  the rejection (\<open>Inl\<close>) or the value the promise resolves with (\<open>Inr\<close>).
\<close>

type_synonym bytes = "8 word list"

datatype js_error = Error string | TypeError string | Thrown string

fun instanceof_Error :: "js_error \<Rightarrow> bool" where
  "instanceof_Error (Error m) = True"
| "instanceof_Error (TypeError m) = True"
| "instanceof_Error (Thrown v) = False"

fun message :: "js_error \<Rightarrow> string" where
  "message (Error m) = m"
| "message (TypeError m) = m"
| "message (Thrown v) = v"

text \<open>
  The message of the \<^verbatim>\<open>TypeError\<close> for reading property \<open>p\<close> of \<^verbatim>\<open>undefined\<close>. Its wording
  is the engine's; what the client depends on is that it is an \<^verbatim>\<open>Error\<close> whose message is
  not \<^verbatim>\<open>INVALID_TX_NONCE_ERROR\<close>.
\<close>

definition cannot_read :: "string \<Rightarrow> string" where
  "cannot_read p = ''Cannot read properties of undefined (reading '' @ p @ '')''"

text \<open>
  Numbers in a template literal. The codes of a transaction handler are integers; an
  integer is printed in decimal, and \<^verbatim>\<open>undefined\<close> as the word itself.
\<close>

fun digits :: "nat \<Rightarrow> string" where
  "digits n = (if n < 10 then [''0123456789'' ! n]
               else digits (n div 10) @ [''0123456789'' ! (n mod 10)])"

declare digits.simps [simp del]

definition Number_toString :: "int \<Rightarrow> string" where
  "Number_toString n = (if n < 0 then ''-'' @ digits (nat (- n)) else digits (nat n))"

definition template_number :: "int option \<Rightarrow> string" where
  "template_number v = (case v of None \<Rightarrow> ''undefined'' | Some n \<Rightarrow> Number_toString n)"

text \<open>Truthiness of an optional number and of an optional string.\<close>

definition or0 :: "int option \<Rightarrow> int" where
  "or0 v = (case v of None \<Rightarrow> 0 | Some n \<Rightarrow> n)"

definition truthy :: "string option \<Rightarrow> bool" where
  "truthy v = (case v of None \<Rightarrow> False | Some s \<Rightarrow> s \<noteq> [])"

section \<open>Data model of client.ts\<close>

record ITxHandlerResult =
  code :: "int option"
  log :: "string option"
  data :: "string option"

record IBroadcastTxCommitResult =
  check_tx :: ITxHandlerResult
  deliver_tx :: ITxHandlerResult
  hash :: string
  height :: string

definition INVALID_TX_NONCE_ERROR :: string where
  "INVALID_TX_NONCE_ERROR = ''Invalid tx nonce''"

definition isInvalidTxNonceError :: "js_error \<Rightarrow> bool" where
  "isInvalidTxNonceError err \<longleftrightarrow> instanceof_Error err \<and> message err = INVALID_TX_NONCE_ERROR"

text \<open>A protobuf message is represented by the bytes its \<^verbatim>\<open>serializeBinary()\<close> returns.\<close>

record Message =
  serializeBinary :: bytes

record LocalAddress =
  local_bytes :: bytes

record Address =
  chainId :: string
  local :: LocalAddress

subsection \<open>RPC channels\<close>

text \<open>
  Modelled from the spec: \<^verbatim>\<open>IJSONRPCClient\<close> and \<^verbatim>\<open>RPCClientEvent\<close> are declared in
  \<^verbatim>\<open>internal/json-rpc-client\<close>, which is not among the sources. A channel is an external
  capability: an object with a URL that performs request/response calls, accepts and drops
  listeners for its signals, and can be disconnected. The model keeps, for every channel
  object, the sequence of method calls it has received, oldest first. Channel objects live
  in a store and are compared by reference.
\<close>

type_synonym ref = nat

datatype RPCClientEvent = RPC_Message | RPC_Connected | RPC_Disconnected | RPC_Error

datatype json = JUndefined | JString string | JNumber int | JBool bool

datatype rpc_params = Positional "string list" | Named "(string \<times> json) list"

text \<open>
  The listeners the client hands to a channel are the four closures of its constructor:
  three forward a lifecycle signal to \<^verbatim>\<open>_emitNetEvent\<close>, the fourth is \<^verbatim>\<open>emitContractEvent\<close>.
\<close>

datatype rpc_listener = EmitNetError | EmitNetConnected | EmitNetDisconnected | emitContractEvent

datatype rpc_call =
    SendAsync string rpc_params
  | On RPCClientEvent rpc_listener
  | RemoveListener RPCClientEvent rpc_listener
  | Disconnect

record IJSONRPCClient =
  url :: string
  calls :: "rpc_call list"

text \<open>
  How the node behind a channel answers a request: a function of the calls the channel has
  received before and of the request. \<^verbatim>\<open>sendAsync<T>\<close> is typed by the caller, so there is
  one answer function for each result type the client asks for. The answer is a rejection,
  or a value that may be absent (\<^verbatim>\<open>undefined\<close> or \<^verbatim>\<open>null\<close>).
\<close>

record node =
  commit_answer :: "rpc_call list \<Rightarrow> string \<Rightarrow> rpc_params \<Rightarrow> js_error + IBroadcastTxCommitResult option"
  string_answer :: "rpc_call list \<Rightarrow> string \<Rightarrow> rpc_params \<Rightarrow> js_error + string option"
  number_answer :: "rpc_call list \<Rightarrow> string \<Rightarrow> rpc_params \<Rightarrow> js_error + int option"
  boolean_answer :: "rpc_call list \<Rightarrow> string \<Rightarrow> rpc_params \<Rightarrow> js_error + bool option"

subsection \<open>Events of the client\<close>

text \<open>
  The values of \<^verbatim>\<open>enum ClientEvent\<close>, and the two events every \<^verbatim>\<open>EventEmitter\<close> emits about
  its own registry.
\<close>

definition ClientEvent_Contract :: string where "ClientEvent_Contract = ''contractEvent''"
definition ClientEvent_Error :: string where "ClientEvent_Error = ''error''"
definition ClientEvent_Connected :: string where "ClientEvent_Connected = ''connected''"
definition ClientEvent_Disconnected :: string where "ClientEvent_Disconnected = ''disconnected''"
definition newListener_event :: string where "newListener_event = ''newListener''"
definition removeListener_event :: string where "removeListener_event = ''removeListener''"

text \<open>
  A value of type \<^verbatim>\<open>any\<close> that arrives as JSON is \<^verbatim>\<open>null\<close>, a boolean, a number, a string, or
  an object or array, which is opaque to the client and represented by its JSON text. Of
  these \<^verbatim>\<open>null\<close>, \<^verbatim>\<open>false\<close>, \<^verbatim>\<open>0\<close> and the empty string are falsy; an object is truthy.
\<close>

datatype js_primitive = JsNull | JsBool bool | JsNumber int | JsString string


datatype any = Primitive js_primitive | Object string








record IChainEventArgs =
  event_id :: string
  event_kind :: string
  event_url :: string
  contractAddress :: Address
  callerAddress :: Address
  blockHeight :: string
  event_data :: bytes
  topics :: "string list"
  transactionHash :: string
  transactionHashBytes :: bytes

datatype IClientEventArgs =
    NetEventArgs (kind: string) (args_url: string)
  | ErrorEventArgs (kind: string) (args_url: string) (error: "any option")
  | ChainEventArgs IChainEventArgs

text \<open>
  A listener of the client is one of the two registry hooks its constructor installs, or a
  callback of the application, identified by a number.
\<close>

datatype listener = NewListenerHook | RemoveListenerHook | Consumer nat

subsection \<open>The world\<close>

text \<open>
  Everything that changes: the store of channel objects, the next free reference, the
  listener registry of the client (it extends \<^verbatim>\<open>EventEmitter\<close>; the registry maps an event
  name to its listeners, the names in the order they were first used) and the events the
  client has emitted, oldest first.
\<close>

record world =
  clients :: "ref \<Rightarrow> IJSONRPCClient"
  next_ref :: ref
  registry :: "(string \<times> listener list) list"
  emitted :: "(string \<times> IClientEventArgs) list"

type_synonym 'a async = "world \<Rightarrow> (js_error + 'a) \<times> world"

text \<open>
  \<^verbatim>\<open>ITxMiddlewareHandler.Handle\<close>: an asynchronous transformation of the transaction bytes.
\<close>

type_synonym ITxMiddlewareHandler = "bytes \<Rightarrow> bytes async"

text \<open>
  What the client takes from outside \<^verbatim>\<open>client.ts\<close>: the base64 codec of \<^verbatim>\<open>crypto-utils\<close>
  (decoding may throw on a malformed payload), the string forms of addresses, the value of
  \<^verbatim>\<open>VMType.PLUGIN\<close>, the deserialiser of a protobuf receipt, and the nodes behind the channels.
\<close>

record 'm environment =
  Uint8ArrayToB64 :: "bytes \<Rightarrow> string"
  B64ToUint8Array :: "string \<Rightarrow> js_error + bytes"
  bufferToProtobufBytes :: "bytes \<Rightarrow> bytes"
  deserializeBinary :: "bytes \<Rightarrow> js_error + 'm"
  LocalAddress_toString :: "LocalAddress \<Rightarrow> string"
  Address_toString :: "Address \<Rightarrow> string"
  VMType_PLUGIN :: int
  node_of :: "ref \<Rightarrow> node"

text \<open>
  \<^verbatim>\<open>retry.OperationOptions\<close> with the fields \<^verbatim>\<open>nonceRetryStrategy\<close> sets; times in
  milliseconds.
\<close>

record OperationOptions =
  retries :: nat
  minTimeout :: nat
  maxTimeout :: nat
  randomize :: bool

record Client =
  chainId_of :: string
  writeClient :: ref
  readClient :: ref
  txMiddleware :: "ITxMiddlewareHandler list"
  nonceRetryStrategy :: OperationOptions

definition default_nonceRetryStrategy :: OperationOptions where
  "default_nonceRetryStrategy = \<lparr>retries = 5, minTimeout = 500, maxTimeout = 5000, randomize = True\<rparr>"

section \<open>The retry package\<close>

text \<open>
  Modelled from the spec: the \<^verbatim>\<open>retry\<close> package is not among the sources. By section 4.3 a
  failed attempt is followed by a backoff and another attempt while retries remain, and by
  a terminal failure when they are exhausted. \<^verbatim>\<open>retry.operation(options)\<close> makes an
  operation that holds one backoff timeout for each of the \<^verbatim>\<open>retries\<close> and counts its
  attempts from 1; \<^verbatim>\<open>op.retry(err)\<close> is false when no timeout is left, and otherwise takes
  one, waits, runs the attempt again with the count increased, and is true; \<^verbatim>\<open>op.stop()\<close>
  drops the timeouts that are left. The durations of the backoff (exponential between
  \<^verbatim>\<open>minTimeout\<close> and \<^verbatim>\<open>maxTimeout\<close>, randomised) are real time and are not modelled, only
  their number is.
\<close>

record RetryOperation =
  timeouts :: nat
  attempts :: nat

definition retry_operation :: "OperationOptions \<Rightarrow> RetryOperation" where
  "retry_operation options = \<lparr>timeouts = retries options, attempts = 1\<rparr>"

definition op_retry :: "RetryOperation \<Rightarrow> bool \<times> RetryOperation" where
  "op_retry op = (if timeouts op = 0 then (False, op)
                  else (True, op\<lparr>timeouts := timeouts op - 1, attempts := attempts op + 1\<rparr>))"

definition op_stop :: "RetryOperation \<Rightarrow> RetryOperation" where
  "op_stop op = op\<lparr>timeouts := 0\<rparr>"

section \<open>Committing a transaction\<close>

text \<open>
  \<^verbatim>\<open>client.sendAsync<T>(method, params)\<close> on the channel object \<open>r\<close>: the call is recorded
  on the channel and the node's answer for the result type \<open>T\<close> comes back.
\<close>

definition record_call :: "ref \<Rightarrow> rpc_call \<Rightarrow> world \<Rightarrow> world" where
  "record_call r c w =
     w\<lparr>clients := (clients w)(r := (clients w r)\<lparr>calls := calls (clients w r) @ [c]\<rparr>)\<rparr>"

definition sendAsync ::
  "(rpc_call list \<Rightarrow> string \<Rightarrow> rpc_params \<Rightarrow> js_error + 'a option) \<Rightarrow> ref \<Rightarrow> string \<Rightarrow> rpc_params
     \<Rightarrow> ('a option) async" where
  "sendAsync answer r method params w =
     (answer (calls (clients w r)) method params, record_call r (SendAsync method params) w)"

text \<open>The loop of \<^verbatim>\<open>_commitTxAsync\<close> over the middleware (lines 266 to 269).\<close>

fun applyMiddleware :: "ITxMiddlewareHandler list \<Rightarrow> bytes \<Rightarrow> bytes async" where
  "applyMiddleware [] txBytes w = (Inr txBytes, w)"
| "applyMiddleware (m # ms) txBytes w =
     (case m txBytes w of
        (Inl err, w') \<Rightarrow> (Inl err, w')
      | (Inr txBytes', w') \<Rightarrow> applyMiddleware ms txBytes' w')"

text \<open>
  What \<^verbatim>\<open>_commitTxAsync\<close> does with the result of \<^verbatim>\<open>broadcast_tx_commit\<close> (lines 274 to
  297). The checks of the two phases are inside \<^verbatim>\<open>if (result)\<close>; the read of
  \<^verbatim>\<open>result.deliver_tx.data\<close> comes after it.
\<close>

definition template_string :: "string option \<Rightarrow> string" where
  "template_string v = (case v of None \<Rightarrow> ''undefined'' | Some s \<Rightarrow> s)"

definition interpret_result ::
  "'m environment \<Rightarrow> IBroadcastTxCommitResult option \<Rightarrow> js_error + bytes option" where
  "interpret_result env result =
     (case result of
        None \<Rightarrow> Inl (TypeError (cannot_read ''deliver_tx''))
      | Some res \<Rightarrow>
          if or0 (code (check_tx res)) \<noteq> 0 then
            (if \<not> truthy (log (check_tx res))
               then Inl (Error (''Failed to commit Tx: '' @ template_number (code (check_tx res))))
             else if code (check_tx res) = Some 1
                     \<and> log (check_tx res) = Some ''sequence number does not match''
               then Inl (Error INVALID_TX_NONCE_ERROR)
             else Inl (Error (''Failed to commit Tx: '' @ template_string (log (check_tx res)))))
          else if or0 (code (deliver_tx res)) \<noteq> 0 then
            (if \<not> truthy (log (deliver_tx res))
               then Inl (Error (''Failed to commit Tx: '' @ template_number (code (deliver_tx res))))
             else Inl (Error (''Failed to commit Tx: '' @ template_string (log (deliver_tx res)))))
          else if truthy (data (deliver_tx res))
            then map_sum id Some (B64ToUint8Array env (template_string (data (deliver_tx res))))
          else Inr None)"

text \<open>
  The generic commit error of a phase that failed: it carries the log of the phase, or its
  code when the log is falsy.
\<close>

definition commit_failure :: "ITxHandlerResult \<Rightarrow> js_error" where
  "commit_failure r =
     (if \<not> truthy (log r) then Error (''Failed to commit Tx: '' @ template_number (code r))
      else Error (''Failed to commit Tx: '' @ template_string (log r)))"

definition private_commitTxAsync ::
  "'m environment \<Rightarrow> Client \<Rightarrow> Message \<Rightarrow> ITxMiddlewareHandler list \<Rightarrow> (bytes option) async" where
  "private_commitTxAsync env c tx middleware w =
     (case applyMiddleware middleware (serializeBinary tx) w of
        (Inl err, w1) \<Rightarrow> (Inl err, w1)
      | (Inr txBytes, w1) \<Rightarrow>
          (case sendAsync (commit_answer (node_of env (writeClient c))) (writeClient c)
                  ''broadcast_tx_commit'' (Positional [Uint8ArrayToB64 env txBytes]) w1 of
             (Inl err, w2) \<Rightarrow> (Inl err, w2)
           | (Inr result, w2) \<Rightarrow> (interpret_result env result, w2)))"

text \<open>
  \<^verbatim>\<open>commitTxAsync\<close>: the attempts of one retry operation, one after the other. The result is
  what the promise settles with, together with the operation, whose \<open>attempts\<close> is the number
  of times \<^verbatim>\<open>_commitTxAsync\<close> was run.
\<close>

function attempt ::
  "'m environment \<Rightarrow> Client \<Rightarrow> Message \<Rightarrow> ITxMiddlewareHandler list \<Rightarrow> RetryOperation \<Rightarrow> world
     \<Rightarrow> ((js_error + bytes option) \<times> RetryOperation) \<times> world" where
  "attempt env c tx middleware op w =
     (case private_commitTxAsync env c tx middleware w of
        (Inr v, w') \<Rightarrow> ((Inr v, op), w')
      | (Inl err, w') \<Rightarrow>
          if isInvalidTxNonceError err then
            (if \<not> fst (op_retry op) then ((Inl err, op), w')
             else attempt env c tx middleware (snd (op_retry op)) w')
          else ((Inl err, op_stop op), w'))"
  by pat_completeness auto
termination
  by (relation "measure (\<lambda>(env, c, tx, middleware, op, w). timeouts op)")
     (auto simp: op_retry_def split: if_splits)

declare attempt.simps [simp del]

text \<open>\<^verbatim>\<open>const { middleware = this.txMiddleware } = opts\<close>\<close>

definition opts_middleware :: "Client \<Rightarrow> ITxMiddlewareHandler list option \<Rightarrow> ITxMiddlewareHandler list" where
  "opts_middleware c opts = (case opts of None \<Rightarrow> txMiddleware c | Some ms \<Rightarrow> ms)"

definition commitTxAsync ::
  "'m environment \<Rightarrow> Client \<Rightarrow> Message \<Rightarrow> ITxMiddlewareHandler list option \<Rightarrow> world
     \<Rightarrow> ((js_error + bytes option) \<times> RetryOperation) \<times> world" where
  "commitTxAsync env c tx opts w =
     (let middleware = opts_middleware c opts;
          op = retry_operation (nonceRetryStrategy c)
      in attempt env c tx middleware op w)"

section \<open>The listener registry\<close>

text \<open>
  Modelled from the spec: \<^verbatim>\<open>EventEmitter\<close> comes from the \<^verbatim>\<open>events\<close> module, which is not
  among the sources. Section 4.5 has the client keep a count of the consumers of an event
  and act on its transitions. The registry does what the module documents: \<^verbatim>\<open>on\<close> emits
  \<^verbatim>\<open>newListener\<close> before the listener is added, \<^verbatim>\<open>removeListener\<close> removes the most recent
  registration of the listener and emits \<^verbatim>\<open>removeListener\<close> after it is removed (and emits
  nothing if the listener was not registered), \<^verbatim>\<open>removeAllListeners()\<close> removes the
  listeners of every event one by one, the latest first, those of \<^verbatim>\<open>removeListener\<close> last,
  and \<^verbatim>\<open>emit\<close> calls the listeners of the event in the order they were registered. A callback
  of the application is opaque: calling it leaves the world as it is.
\<close>

definition listeners :: "world \<Rightarrow> string \<Rightarrow> listener list" where
  "listeners w event = (case map_of (registry w) event of None \<Rightarrow> [] | Some ls \<Rightarrow> ls)"

definition listenerCount :: "world \<Rightarrow> string \<Rightarrow> nat" where
  "listenerCount w event = length (listeners w event)"

definition set_listeners :: "string \<Rightarrow> listener list \<Rightarrow> world \<Rightarrow> world" where
  "set_listeners event ls w =
     w\<lparr>registry := (if ls = [] then AList.delete event (registry w)
                     else AList.update event ls (registry w))\<rparr>"

fun remove_last :: "'a \<Rightarrow> 'a list \<Rightarrow> 'a list" where
  "remove_last x [] = []"
| "remove_last x (y # ys) = (if x \<in> set ys then y # remove_last x ys
                             else if x = y then ys else y # ys)"

text \<open>Listeners and calls on a channel object.\<close>

definition rpc_on :: "ref \<Rightarrow> RPCClientEvent \<Rightarrow> rpc_listener \<Rightarrow> world \<Rightarrow> world" where
  "rpc_on r signal l w = record_call r (On signal l) w"

definition rpc_removeListener :: "ref \<Rightarrow> RPCClientEvent \<Rightarrow> rpc_listener \<Rightarrow> world \<Rightarrow> world" where
  "rpc_removeListener r signal l w = record_call r (RemoveListener signal l) w"

definition rpc_disconnect :: "ref \<Rightarrow> world \<Rightarrow> world" where
  "rpc_disconnect r w = record_call r Disconnect w"

text \<open>
  Calling a listener of the client with the name of an event: the two hooks are the arrow
  functions of the constructor (lines 201 to 211).
\<close>

fun call_listener :: "Client \<Rightarrow> string \<Rightarrow> listener \<Rightarrow> world \<Rightarrow> world" where
  "call_listener c event NewListenerHook w =
     (if event = ClientEvent_Contract \<and> listenerCount w ClientEvent_Contract = 0
      then rpc_on (readClient c) RPC_Message emitContractEvent w else w)"
| "call_listener c event RemoveListenerHook w =
     (if event = ClientEvent_Contract \<and> listenerCount w ClientEvent_Contract = 0
      then rpc_removeListener (readClient c) RPC_Message emitContractEvent w else w)"
| "call_listener c event (Consumer n) w = w"

definition emit_registry :: "Client \<Rightarrow> string \<Rightarrow> string \<Rightarrow> world \<Rightarrow> world" where
  "emit_registry c name event w = fold (call_listener c event) (listeners w name) w"

definition on :: "Client \<Rightarrow> string \<Rightarrow> listener \<Rightarrow> world \<Rightarrow> world" where
  "on c event l w =
     (let w1 = (if listeners w newListener_event \<noteq> [] then emit_registry c newListener_event event w
                else w)
      in set_listeners event (listeners w1 event @ [l]) w1)"

definition removeListener :: "Client \<Rightarrow> string \<Rightarrow> listener \<Rightarrow> world \<Rightarrow> world" where
  "removeListener c event l w =
     (if l \<notin> set (listeners w event) then w
      else let w1 = set_listeners event (remove_last l (listeners w event)) w
           in if listeners w1 removeListener_event \<noteq> []
              then emit_registry c removeListener_event event w1 else w1)"

definition removeAllListeners_of :: "Client \<Rightarrow> string \<Rightarrow> world \<Rightarrow> world" where
  "removeAllListeners_of c event w =
     fold (removeListener c event) (rev (listeners w event)) w"

definition removeAllListeners :: "Client \<Rightarrow> world \<Rightarrow> world" where
  "removeAllListeners c w =
     (if listeners w removeListener_event = [] then w\<lparr>registry := []\<rparr>
      else let w1 = fold (removeAllListeners_of c)
                      (filter (\<lambda>key. key \<noteq> removeListener_event) (map fst (registry w))) w;
               w2 = removeAllListeners_of c removeListener_event w1
           in w2\<lparr>registry := []\<rparr>)"

definition emit :: "string \<Rightarrow> IClientEventArgs \<Rightarrow> world \<Rightarrow> world" where
  "emit event args w = w\<lparr>emitted := emitted w @ [(event, args)]\<rparr>"

section \<open>Construction and teardown\<close>

text \<open>
  An endpoint given to the constructor is a URL or a channel object. \<^verbatim>\<open>new WSRPCClient(url)\<close>
  makes a new channel object that has received no call.
\<close>

datatype endpoint = Url string | Instance ref

definition new_WSRPCClient :: "string \<Rightarrow> world \<Rightarrow> ref \<times> world" where
  "new_WSRPCClient u w =
     (next_ref w, w\<lparr>clients := (clients w)(next_ref w := \<lparr>url = u, calls = []\<rparr>),
                    next_ref := next_ref w + 1\<rparr>)"

definition resolve_endpoint :: "endpoint \<Rightarrow> world \<Rightarrow> ref \<times> world" where
  "resolve_endpoint e w = (case e of Url u \<Rightarrow> new_WSRPCClient u w | Instance r \<Rightarrow> (r, w))"

definition forward_lifecycle :: "ref \<Rightarrow> world \<Rightarrow> world" where
  "forward_lifecycle r w =
     rpc_on r RPC_Disconnected EmitNetDisconnected
       (rpc_on r RPC_Connected EmitNetConnected
         (rpc_on r RPC_Error EmitNetError w))"

definition falsy_endpoint :: "endpoint option \<Rightarrow> bool" where
  "falsy_endpoint e = (case e of None \<Rightarrow> True | Some (Url u) \<Rightarrow> u = [] | Some (Instance r) \<Rightarrow> False)"

definition Client_constructor ::
  "string \<Rightarrow> endpoint \<Rightarrow> endpoint option \<Rightarrow> world \<Rightarrow> Client \<times> world" where
  "Client_constructor chain writeEndpoint readEndpoint w =
     (let w0 = w\<lparr>registry := []\<rparr>;
          (wc, w1) = resolve_endpoint writeEndpoint w0;
          w2 = forward_lifecycle wc w1;
          (rc, w3) = (if falsy_endpoint readEndpoint \<or> Some writeEndpoint = readEndpoint
                      then (wc, w2)
                      else (case readEndpoint of
                              Some e \<Rightarrow> (let (r, w') = resolve_endpoint e w2
                                         in (r, forward_lifecycle r w'))
                            | None \<Rightarrow> (wc, w2)));
          c = \<lparr>chainId_of = chain, writeClient = wc, readClient = rc, txMiddleware = [],
               nonceRetryStrategy = default_nonceRetryStrategy\<rparr>;
          w4 = on c newListener_event NewListenerHook w3;
          w5 = on c removeListener_event RemoveListenerHook w4
      in (c, w5))"

definition disconnect :: "Client \<Rightarrow> world \<Rightarrow> world" where
  "disconnect c w =
     (let w1 = removeAllListeners c w;
          w2 = rpc_disconnect (writeClient c) w1
      in if readClient c \<noteq> writeClient c then rpc_disconnect (readClient c) w2 else w2)"

section \<open>Reading from the chain\<close>

text \<open>
  The result of a read that is typed \<^verbatim>\<open>string\<close> and decoded from base64 when it is truthy;
  \<open>absent\<close> is what the method returns otherwise (no value, or \<^verbatim>\<open>null\<close>; both are \<open>None\<close>).
\<close>

definition decode_if_truthy :: "'m environment \<Rightarrow> string option \<Rightarrow> js_error + bytes option" where
  "decode_if_truthy env result =
     (case result of
        None \<Rightarrow> Inr None
      | Some s \<Rightarrow> if s = [] then Inr None else map_sum id Some (B64ToUint8Array env s))"

definition then_async :: "'a async \<Rightarrow> ('a \<Rightarrow> js_error + 'b) \<Rightarrow> 'b async" where
  "then_async f g w =
     (case f w of (Inl err, w') \<Rightarrow> (Inl err, w') | (Inr v, w') \<Rightarrow> (g v, w'))"

text \<open>The parameter object of \<^verbatim>\<open>queryAsync\<close> (lines 310 to 315); \<open>vmType\<close> defaults to \<^verbatim>\<open>VMType.PLUGIN\<close>.\<close>

definition query_params ::
  "'m environment \<Rightarrow> Address \<Rightarrow> bytes option \<Rightarrow> int option \<Rightarrow> Address option \<Rightarrow> rpc_params" where
  "query_params env contract query vmType callerAddr =
     Named [(''contract'', JString (LocalAddress_toString env (local contract))),
            (''query'', (case query of None \<Rightarrow> JUndefined
                         | Some q \<Rightarrow> JString (Uint8ArrayToB64 env q))),
            (''vmType'', JNumber (case vmType of None \<Rightarrow> VMType_PLUGIN env | Some v \<Rightarrow> v)),
            (''caller'', (case callerAddr of None \<Rightarrow> JUndefined
                          | Some a \<Rightarrow> JString (Address_toString env a)))]"

definition queryAsync ::
  "'m environment \<Rightarrow> Client \<Rightarrow> Address \<Rightarrow> bytes option \<Rightarrow> int option \<Rightarrow> Address option
     \<Rightarrow> (bytes option) async" where
  "queryAsync env c contract query vmType callerAddr =
     then_async
       (sendAsync (string_answer (node_of env (readClient c))) (readClient c) ''query''
          (query_params env contract query vmType callerAddr))
       (decode_if_truthy env)"

definition getEvmTxReceiptAsync :: "'m environment \<Rightarrow> Client \<Rightarrow> bytes \<Rightarrow> ('m option) async" where
  "getEvmTxReceiptAsync env c txHash =
     then_async
       (sendAsync (string_answer (node_of env (readClient c))) (readClient c) ''evmtxreceipt''
          (Named [(''txHash'', JString (Uint8ArrayToB64 env txHash))]))
       (\<lambda>result. case result of
            None \<Rightarrow> Inr None
          | Some s \<Rightarrow> if s = [] then Inr None
                      else (case B64ToUint8Array env s of
                              Inl err \<Rightarrow> Inl err
                            | Inr b \<Rightarrow> map_sum id Some
                                        (deserializeBinary env (bufferToProtobufBytes env b))))"

text \<open>The filter of the next two methods is the text \<^verbatim>\<open>JSON.stringify(filterObject)\<close>.\<close>

definition getEvmLogsAsync :: "'m environment \<Rightarrow> Client \<Rightarrow> string \<Rightarrow> (bytes option) async" where
  "getEvmLogsAsync env c filter_json =
     then_async
       (sendAsync (string_answer (node_of env (readClient c))) (readClient c) ''getevmlogs''
          (Named [(''filter'', JString filter_json)]))
       (decode_if_truthy env)"

definition newEvmFilterAsync :: "'m environment \<Rightarrow> Client \<Rightarrow> string \<Rightarrow> (string option) async" where
  "newEvmFilterAsync env c filter_json =
     then_async
       (sendAsync (string_answer (node_of env (readClient c))) (readClient c) ''newevmfilter''
          (Named [(''filter'', JString filter_json)]))
       (\<lambda>result. case result of None \<Rightarrow> Inr None
                  | Some s \<Rightarrow> if s = [] then Inr None else Inr (Some s))"

definition getEvmFilterChangesAsync :: "'m environment \<Rightarrow> Client \<Rightarrow> string \<Rightarrow> (bytes option) async" where
  "getEvmFilterChangesAsync env c filter_id =
     then_async
       (sendAsync (string_answer (node_of env (readClient c))) (readClient c) ''getevmfilterchanges''
          (Named [(''id'', JString filter_id)]))
       (decode_if_truthy env)"

definition newBlockEvmFilterAsync :: "'m environment \<Rightarrow> Client \<Rightarrow> (string option) async" where
  "newBlockEvmFilterAsync env c =
     then_async
       (sendAsync (string_answer (node_of env (readClient c))) (readClient c) ''newblockevmfilter''
          (Named []))
       (\<lambda>result. case result of None \<Rightarrow> Inr None
                  | Some s \<Rightarrow> if s = [] then Inr None else Inr (Some s))"

definition newPendingTransactionEvmFilterAsync :: "'m environment \<Rightarrow> Client \<Rightarrow> (string option) async" where
  "newPendingTransactionEvmFilterAsync env c =
     then_async
       (sendAsync (string_answer (node_of env (readClient c))) (readClient c)
          ''newpendingtransactionevmfilter'' (Named []))
       (\<lambda>result. case result of None \<Rightarrow> Inr None
                  | Some s \<Rightarrow> if s = [] then Inr None else Inr (Some s))"

definition uninstallEvmFilterAsync :: "'m environment \<Rightarrow> Client \<Rightarrow> string \<Rightarrow> (bool option) async" where
  "uninstallEvmFilterAsync env c filter_id =
     sendAsync (boolean_answer (node_of env (readClient c))) (readClient c) ''uninstallevmfilter''
       (Named [(''id'', JString filter_id)])"

definition evmSubscribeAsync ::
  "'m environment \<Rightarrow> Client \<Rightarrow> string \<Rightarrow> string \<Rightarrow> (string option) async" where
  "evmSubscribeAsync env c method filter_json =
     sendAsync (string_answer (node_of env (readClient c))) (readClient c) ''evmsubscribe''
       (Named [(''method'', JString method), (''filter'', JString filter_json)])"

definition evmUnsubscribeAsync :: "'m environment \<Rightarrow> Client \<Rightarrow> string \<Rightarrow> (bool option) async" where
  "evmUnsubscribeAsync env c subscription_id =
     sendAsync (boolean_answer (node_of env (readClient c))) (readClient c) ''evmunsubscribe''
       (Named [(''id'', JString subscription_id)])"

definition getNonceAsync :: "'m environment \<Rightarrow> Client \<Rightarrow> string \<Rightarrow> (int option) async" where
  "getNonceAsync env c key =
     sendAsync (number_answer (node_of env (readClient c))) (readClient c) ''nonce''
       (Named [(''key'', JString key)])"

section \<open>Translating notifications\<close>




definition private_emitNetEvent :: "string \<Rightarrow> string \<Rightarrow> any option \<Rightarrow> world \<Rightarrow> world" where
  "private_emitNetEvent u kind_of err w =
     (if kind_of = ClientEvent_Error then emit kind_of (ErrorEventArgs kind_of u err) w
      else emit kind_of (NetEventArgs kind_of u) w)"

section \<open>Observations on a run\<close>

text \<open>
  What a channel object has received between two worlds, the method of a request, that a
  step sent one request of a method on one channel and nothing on the other, and how often
  a channel was disconnected and was handed or asked to drop the notification handler.
\<close>

definition new_calls :: "ref \<Rightarrow> world \<Rightarrow> world \<Rightarrow> rpc_call list" where
  "new_calls r w w' = drop (length (calls (clients w r))) (calls (clients w' r))"

definition method_of :: "rpc_call \<Rightarrow> string option" where
  "method_of call = (case call of SendAsync method params \<Rightarrow> Some method | _ \<Rightarrow> None)"

definition sent_on :: "ref \<Rightarrow> ref \<Rightarrow> string \<Rightarrow> world \<Rightarrow> world \<Rightarrow> bool" where
  "sent_on target other method w w' \<longleftrightarrow>
     map method_of (new_calls target w w') = [Some method]
     \<and> (other \<noteq> target \<longrightarrow> new_calls other w w' = [])"

text \<open>How many \<^verbatim>\<open>broadcast_tx_commit\<close> requests a channel object has received.\<close>

definition commits_sent :: "world \<Rightarrow> ref \<Rightarrow> nat" where
  "commits_sent w r =
     length (filter (\<lambda>call. method_of call = Some ''broadcast_tx_commit'') (calls (clients w r)))"

definition disconnects :: "world \<Rightarrow> ref \<Rightarrow> nat" where
  "disconnects w r = count_list (calls (clients w r)) Disconnect"

definition attach_calls :: "world \<Rightarrow> ref \<Rightarrow> nat" where
  "attach_calls w r = count_list (calls (clients w r)) (On RPC_Message emitContractEvent)"

definition detach_calls :: "world \<Rightarrow> ref \<Rightarrow> nat" where
  "detach_calls w r = count_list (calls (clients w r)) (RemoveListener RPC_Message emitContractEvent)"

text \<open>
  The application registers and unregisters its callbacks with \<^verbatim>\<open>client.on\<close> and
  \<^verbatim>\<open>client.removeListener\<close>.
\<close>

datatype registration = Register string nat | Unregister string nat

fun apply_registration :: "Client \<Rightarrow> registration \<Rightarrow> world \<Rightarrow> world" where
  "apply_registration c (Register event n) w = on c event (Consumer n) w"
| "apply_registration c (Unregister event n) w = removeListener c event (Consumer n) w"

text \<open>
  The two hooks of the constructor are registered, each once and for its own event.
\<close>

definition hooks_installed :: "world \<Rightarrow> bool" where
  "hooks_installed w \<longleftrightarrow>
     count_list (listeners w newListener_event) NewListenerHook = 1
     \<and> RemoveListenerHook \<notin> set (listeners w newListener_event)
     \<and> count_list (listeners w removeListener_event) RemoveListenerHook = 1
     \<and> NewListenerHook \<notin> set (listeners w removeListener_event)"

text \<open>The events of one kind among those the client has emitted.\<close>

definition emitted_of :: "string \<Rightarrow> world \<Rightarrow> IClientEventArgs list" where
  "emitted_of event w = map snd (filter (\<lambda>e. fst e = event) (emitted w))"

section \<open>The rules of section 4.2 as they are worded\<close>

text \<open>
  The result interpreter of the specification, with absent meaning that the field is not
  there: rule 1 for a failed check, rule 2 for a failed delivery, rule 3 for success.
\<close>

definition spec_interpret_result ::
  "'m environment \<Rightarrow> IBroadcastTxCommitResult \<Rightarrow> js_error + bytes option" where
  "spec_interpret_result env res =
     (if or0 (code (check_tx res)) \<noteq> 0 then
        (case log (check_tx res) of
           None \<Rightarrow> Inl (Error (''Failed to commit Tx: '' @ template_number (code (check_tx res))))
         | Some l \<Rightarrow>
             if code (check_tx res) = Some 1 \<and> l = ''sequence number does not match''
             then Inl (Error INVALID_TX_NONCE_ERROR)
             else Inl (Error (''Failed to commit Tx: '' @ l)))
      else if or0 (code (deliver_tx res)) \<noteq> 0 then
        (case log (deliver_tx res) of
           None \<Rightarrow> Inl (Error (''Failed to commit Tx: '' @ template_number (code (deliver_tx res))))
         | Some l \<Rightarrow> Inl (Error (''Failed to commit Tx: '' @ l)))
      else (case data (deliver_tx res) of
              None \<Rightarrow> Inr None
            | Some d \<Rightarrow> map_sum id Some (B64ToUint8Array env d)))"

section \<open>Example inputs\<close>

text \<open>
  A node that answers every request with nothing, one that answers every commit with a given
  result, and one that answers every request for a string with a given string.
\<close>

definition silent_node :: node where
  "silent_node = \<lparr>commit_answer = (\<lambda>h method params. Inr None),
                  string_answer = (\<lambda>h method params. Inr None),
                  number_answer = (\<lambda>h method params. Inr None),
                  boolean_answer = (\<lambda>h method params. Inr None)\<rparr>"

definition committing_node :: "IBroadcastTxCommitResult option \<Rightarrow> node" where
  "committing_node res = silent_node\<lparr>commit_answer := (\<lambda>h method params. Inr res)\<rparr>"

definition answering_node :: "string option \<Rightarrow> node" where
  "answering_node s = silent_node\<lparr>string_answer := (\<lambda>h method params. Inr s)\<rparr>"

text \<open>
  An environment whose codec knows the one payload of the specification's first scenario,
  \<^verbatim>\<open>aGVsbG8=\<close> for the bytes of \<^verbatim>\<open>hello\<close>, and takes every other text for malformed.
\<close>

definition hello :: bytes where
  "hello = [104, 101, 108, 108, 111]"

definition example_environment :: "node \<Rightarrow> unit environment" where
  "example_environment n =
     \<lparr>Uint8ArrayToB64 = (\<lambda>b. if b = hello then ''aGVsbG8='' else []),
      B64ToUint8Array = (\<lambda>s. if s = ''aGVsbG8='' then Inr hello else Inl (Error ''invalid encoding'')),
      bufferToProtobufBytes = (\<lambda>b. b),
      deserializeBinary = (\<lambda>b. Inr ()),
      LocalAddress_toString = (\<lambda>a. ''0x''),
      Address_toString = (\<lambda>a. chainId a @ '':0x''),
      VMType_PLUGIN = 1,
      node_of = (\<lambda>r. n)\<rparr>"

definition handler_ok :: ITxHandlerResult where
  "handler_ok = \<lparr>code = Some 0, log = None, data = None\<rparr>"

definition commit_result :: "ITxHandlerResult \<Rightarrow> ITxHandlerResult \<Rightarrow> IBroadcastTxCommitResult" where
  "commit_result chk dlv = \<lparr>check_tx = chk, deliver_tx = dlv, hash = ''A1'', height = ''7''\<rparr>"

definition nonce_conflict :: IBroadcastTxCommitResult where
  "nonce_conflict =
     commit_result \<lparr>code = Some 1, log = Some ''sequence number does not match'', data = None\<rparr>
       handler_ok"

text \<open>A world with two channel objects, and clients on both of them or on the first alone.\<close>

definition example_world :: world where
  "example_world = \<lparr>clients = (\<lambda>r. \<lparr>url = ''ws://node'', calls = []\<rparr>), next_ref = 2,
                     registry = [], emitted = []\<rparr>"

definition two_channel_client :: Client where
  "two_channel_client = \<lparr>chainId_of = ''default'', writeClient = 0, readClient = 1,
                          txMiddleware = [], nonceRetryStrategy = default_nonceRetryStrategy\<rparr>"

definition one_channel_client :: Client where
  "one_channel_client = \<lparr>chainId_of = ''default'', writeClient = 0, readClient = 0,
                          txMiddleware = [], nonceRetryStrategy = default_nonceRetryStrategy\<rparr>"

definition example_tx :: Message where
  "example_tx = \<lparr>serializeBinary = hello\<rparr>"

definition empty_log_rejection :: IBroadcastTxCommitResult where
  "empty_log_rejection = commit_result \<lparr>code = Some 2, log = Some [], data = None\<rparr> handler_ok"

definition hello_delivered :: IBroadcastTxCommitResult where
  "hello_delivered = commit_result handler_ok \<lparr>code = Some 0, log = None, data = Some ''aGVsbG8=''\<rparr>"

definition out_of_gas :: IBroadcastTxCommitResult where
  "out_of_gas = commit_result handler_ok \<lparr>code = Some 5, log = Some ''out of gas'', data = None\<rparr>"

text \<open>Two middleware that do not commute: one appends a byte, the other reverses the bytes.\<close>

definition append_byte :: "8 word \<Rightarrow> ITxMiddlewareHandler" where
  "append_byte x txData w = (Inr (txData @ [x]), w)"

definition reverse_bytes :: ITxMiddlewareHandler where
  "reverse_bytes txData w = (Inr (rev txData), w)"

text \<open>A client constructed on two URLs in the example world.\<close>

definition example_construction :: "Client \<times> world" where
  "example_construction =
     Client_constructor ''default'' (Url ''ws://write'') (Some (Url ''ws://read'')) example_world"






section \<open>Facts about the result interpreter and the retry loop\<close>

lemma commit_failure_not_nonce [simp]: "\<not> isInvalidTxNonceError (commit_failure r)"
  by (simp add: commit_failure_def isInvalidTxNonceError_def INVALID_TX_NONCE_ERROR_def)

lemma type_error_not_nonce [simp]: "\<not> isInvalidTxNonceError (TypeError (cannot_read p))"
  by (simp add: isInvalidTxNonceError_def cannot_read_def INVALID_TX_NONCE_ERROR_def)

lemma nonce_error_is_nonce [simp]: "isInvalidTxNonceError (Error INVALID_TX_NONCE_ERROR)"
  by (simp add: isInvalidTxNonceError_def)

lemma check_failed:
  "code (check_tx res) = Some n \<Longrightarrow> n \<noteq> 0 \<Longrightarrow>
   interpret_result env (Some res) =
     (if \<not> truthy (log (check_tx res)) then Inl (commit_failure (check_tx res))
      else if n = 1 \<and> log (check_tx res) = Some ''sequence number does not match''
        then Inl (Error INVALID_TX_NONCE_ERROR)
      else Inl (commit_failure (check_tx res)))"
  by (simp add: interpret_result_def or0_def commit_failure_def)

lemma check_passed:
  "or0 (code (check_tx res)) = 0 \<Longrightarrow>
   interpret_result env (Some res) =
     (if or0 (code (deliver_tx res)) \<noteq> 0 then Inl (commit_failure (deliver_tx res))
      else decode_if_truthy env (data (deliver_tx res)))"
  by (auto simp add: interpret_result_def decode_if_truthy_def commit_failure_def truthy_def
      template_string_def split: option.splits)

lemma commit_failure_code:
  "log r = None \<or> log r = Some [] \<Longrightarrow> code r = Some n \<Longrightarrow>
   commit_failure r = Error (''Failed to commit Tx: '' @ Number_toString n)"
  by (auto simp add: commit_failure_def template_number_def truthy_def)

lemma commit_failure_log:
  "log r = Some l \<Longrightarrow> l \<noteq> [] \<Longrightarrow> commit_failure r = Error (''Failed to commit Tx: '' @ l)"
  by (simp add: commit_failure_def truthy_def template_string_def)

lemma attempt_stops:
  assumes "private_commitTxAsync env c tx mws w = (Inl err, w')" and "\<not> isInvalidTxNonceError err"
  shows "attempt env c tx mws op w = ((Inl err, op_stop op), w')"
  using assms by (subst attempt.simps) simp

lemma attempt_resolves:
  assumes "private_commitTxAsync env c tx mws w = (Inr v, w')"
  shows "attempt env c tx mws op w = ((Inr v, op), w')"
  using assms by (subst attempt.simps) simp

lemma attempt_conflict:
  assumes "private_commitTxAsync env c tx mws w = (Inl err, w')" and "isInvalidTxNonceError err"
  shows "attempt env c tx mws op w =
           (if timeouts op = 0 then ((Inl err, op), w')
            else attempt env c tx mws (op\<lparr>timeouts := timeouts op - 1, attempts := attempts op + 1\<rparr>) w')"
  using assms by (subst attempt.simps) (simp add: op_retry_def)

lemma attempt_always_conflict:
  assumes "\<And>w. \<exists>w'. private_commitTxAsync env c tx mws w = (Inl (Error INVALID_TX_NONCE_ERROR), w')"
  shows "timeouts op = n \<Longrightarrow> fst (attempt env c tx mws op w) =
           (Inl (Error INVALID_TX_NONCE_ERROR), \<lparr>timeouts = 0, attempts = attempts op + n\<rparr>)"
proof (induction n arbitrary: op w)
  case 0
  obtain w' where "private_commitTxAsync env c tx mws w = (Inl (Error INVALID_TX_NONCE_ERROR), w')"
    using assms by blast
  then show ?case using 0 by (simp add: attempt_conflict)
next
  case (Suc n)
  obtain w' where "private_commitTxAsync env c tx mws w = (Inl (Error INVALID_TX_NONCE_ERROR), w')"
    using assms by blast
  then show ?case
    using Suc.prems Suc.IH [of "op\<lparr>timeouts := timeouts op - 1, attempts := attempts op + 1\<rparr>" w']
    by (simp add: attempt_conflict)
qed

lemma private_commit_sent:
  assumes "applyMiddleware mws (serializeBinary tx) w = (Inr b, w1)"
  shows "private_commitTxAsync env c tx mws w =
           (case commit_answer (node_of env (writeClient c)) (calls (clients w1 (writeClient c)))
                   ''broadcast_tx_commit'' (Positional [Uint8ArrayToB64 env b]) of
              Inl err \<Rightarrow> Inl err
            | Inr result \<Rightarrow> interpret_result env result,
            record_call (writeClient c)
              (SendAsync ''broadcast_tx_commit'' (Positional [Uint8ArrayToB64 env b])) w1)"
  using assms by (simp add: private_commitTxAsync_def sendAsync_def split: sum.splits)

lemma private_commit_conflict:
  assumes mw: "applyMiddleware mws (serializeBinary tx) w = (Inr b, w1)"
    and ans: "commit_answer (node_of env (writeClient c)) (calls (clients w1 (writeClient c)))
                ''broadcast_tx_commit'' (Positional [Uint8ArrayToB64 env b]) = Inr (Some res)"
    and chk: "code (check_tx res) = Some 1" "log (check_tx res) = Some ''sequence number does not match''"
  shows "\<exists>w'. private_commitTxAsync env c tx mws w = (Inl (Error INVALID_TX_NONCE_ERROR), w')"
  using assms by (simp add: private_commit_sent check_failed truthy_def)

lemma commits_sent_record_call:
  "commits_sent (record_call r call w) r'
     = commits_sent w r'
       + (if r' = r \<and> method_of call = Some ''broadcast_tx_commit'' then 1 else 0)"
  by (simp add: commits_sent_def record_call_def)

lemma attempt_always_conflict_sends:
  assumes "\<And>w. \<exists>w'. private_commitTxAsync env c tx mws w = (Inl (Error INVALID_TX_NONCE_ERROR), w')
                    \<and> commits_sent w' r = commits_sent w r + 1"
  shows "timeouts op = n \<Longrightarrow>
         commits_sent (snd (attempt env c tx mws op w)) r = commits_sent w r + n + 1"
proof (induction n arbitrary: op w)
  case 0
  obtain w' where "private_commitTxAsync env c tx mws w = (Inl (Error INVALID_TX_NONCE_ERROR), w')"
      and "commits_sent w' r = commits_sent w r + 1"
    using assms by blast
  then show ?case using 0 by (simp add: attempt_conflict)
next
  case (Suc n)
  obtain w' where "private_commitTxAsync env c tx mws w = (Inl (Error INVALID_TX_NONCE_ERROR), w')"
      and "commits_sent w' r = commits_sent w r + 1"
    using assms by blast
  then show ?case
    using Suc.prems Suc.IH [of "op\<lparr>timeouts := timeouts op - 1, attempts := attempts op + 1\<rparr>" w']
    by (simp add: attempt_conflict)
qed

lemma applyMiddleware_functions:
  "list_all2 (\<lambda>m f. \<forall>b w. fst (m b w) = Inr (f b)) mws fs \<Longrightarrow>
   fst (applyMiddleware mws b w) = Inr (fold (\<lambda>f. f) fs b)"
proof (induction mws fs arbitrary: b w rule: list_all2_induct)
  case Nil
  then show ?case by simp
next
  case (Cons m mws f fs)
  from Cons.hyps(1) have "fst (m b w) = Inr (f b)" by blast
  then obtain w' where "m b w = (Inr (f b), w')" by (cases "m b w") simp
  then show ?case using Cons.IH [of "f b" w'] by simp
qed

lemma example_pipeline [simp]:
  "applyMiddleware (opts_middleware two_channel_client None) (serializeBinary example_tx) w
     = (Inr hello, w)"
  by (simp add: opts_middleware_def two_channel_client_def example_tx_def)

lemma example_answer [simp]:
  "commit_answer (node_of (example_environment (committing_node res)) r) h method params = Inr res"
  by (simp add: example_environment_def committing_node_def)

section \<open>The claims about committing\<close>

text \<open>
  Claim C1. If the check phase of every attempt returns code 1 with the log
  \<^verbatim>\<open>sequence number does not match\<close>, then \<^verbatim>\<open>commitTxAsync\<close> is rejected with the
  nonce-conflict error after exactly \<^verbatim>\<open>retries + 1\<close> attempts, which is 6 attempts under the
  default strategy: the write channel has received \<^verbatim>\<open>retries + 1\<close> more \<^verbatim>\<open>broadcast_tx_commit\<close>
  requests than before, one for each attempt, and the operation has counted as many. That
  every attempt gets to the check phase means that the middleware resolves in every world,
  sending no commit of its own, and that the node answers every commit with such a result.
\<close>

theorem nonce_conflict_exhausts_retries:
  assumes mw: "\<And>w. \<exists>b w'. applyMiddleware (opts_middleware c opts) (serializeBinary tx) w = (Inr b, w')
                       \<and> commits_sent w' (writeClient c) = commits_sent w (writeClient c)"
    and ans: "\<And>h p. \<exists>res. commit_answer (node_of env (writeClient c)) h ''broadcast_tx_commit'' p = Inr (Some res)
                 \<and> code (check_tx res) = Some 1
                 \<and> log (check_tx res) = Some ''sequence number does not match''"
  shows "fst (commitTxAsync env c tx opts w) =
           (Inl (Error INVALID_TX_NONCE_ERROR),
            \<lparr>timeouts = 0, attempts = retries (nonceRetryStrategy c) + 1\<rparr>)
         \<and> commits_sent (snd (commitTxAsync env c tx opts w)) (writeClient c)
             = commits_sent w (writeClient c) + retries (nonceRetryStrategy c) + 1
         \<and> (nonceRetryStrategy c = default_nonceRetryStrategy \<longrightarrow>
              attempts (snd (fst (commitTxAsync env c tx opts w))) = 6
              \<and> commits_sent (snd (commitTxAsync env c tx opts w)) (writeClient c)
                  = commits_sent w (writeClient c) + 6)"
proof -
  have every: "\<exists>w'. private_commitTxAsync env c tx (opts_middleware c opts) w
                  = (Inl (Error INVALID_TX_NONCE_ERROR), w')
                \<and> commits_sent w' (writeClient c) = commits_sent w (writeClient c) + 1" for w
  proof -
    obtain b wm where 1: "applyMiddleware (opts_middleware c opts) (serializeBinary tx) w = (Inr b, wm)"
        and frame: "commits_sent wm (writeClient c) = commits_sent w (writeClient c)"
      using mw by blast
    obtain res where 2: "commit_answer (node_of env (writeClient c)) (calls (clients wm (writeClient c)))
                ''broadcast_tx_commit'' (Positional [Uint8ArrayToB64 env b]) = Inr (Some res)"
       "code (check_tx res) = Some 1" "log (check_tx res) = Some ''sequence number does not match''"
      using ans by blast
    have "private_commitTxAsync env c tx (opts_middleware c opts) w
            = (Inl (Error INVALID_TX_NONCE_ERROR),
               record_call (writeClient c)
                 (SendAsync ''broadcast_tx_commit'' (Positional [Uint8ArrayToB64 env b])) wm)"
      using 2 by (simp add: private_commit_sent [OF 1] check_failed truthy_def)
    then show ?thesis
      using frame by (simp add: commits_sent_record_call method_of_def)
  qed
  then have every': "\<exists>w'. private_commitTxAsync env c tx (opts_middleware c opts) w
                  = (Inl (Error INVALID_TX_NONCE_ERROR), w')" for w
    by blast
  have g: "fst (commitTxAsync env c tx opts w) =
           (Inl (Error INVALID_TX_NONCE_ERROR),
            \<lparr>timeouts = 0, attempts = retries (nonceRetryStrategy c) + 1\<rparr>)"
    using attempt_always_conflict [of env c tx "opts_middleware c opts", OF every' refl]
    by (simp add: commitTxAsync_def retry_operation_def)
  have s: "commits_sent (snd (commitTxAsync env c tx opts w)) (writeClient c)
             = commits_sent w (writeClient c) + retries (nonceRetryStrategy c) + 1"
    using attempt_always_conflict_sends [of env c tx "opts_middleware c opts" "writeClient c",
        OF every refl]
    by (simp add: commitTxAsync_def retry_operation_def)
  show ?thesis
    using g s by (simp add: default_nonceRetryStrategy_def)
qed

theorem nonce_conflict_exhausts_retries_witness:
  "fst (commitTxAsync (example_environment (committing_node (Some nonce_conflict)))
          two_channel_client example_tx None example_world)
     = (Inl (Error ''Invalid tx nonce''), \<lparr>timeouts = 0, attempts = 6\<rparr>)
   \<and> commits_sent (snd (commitTxAsync (example_environment (committing_node (Some nonce_conflict)))
          two_channel_client example_tx None example_world)) 0 = 6
   \<and> calls (clients (snd (commitTxAsync (example_environment (committing_node (Some nonce_conflict)))
          two_channel_client example_tx None example_world)) 0)
       = replicate 6 (SendAsync ''broadcast_tx_commit'' (Positional [''aGVsbG8='']))"
proof -
  have mw: "\<exists>b w'. applyMiddleware (opts_middleware two_channel_client None)
                     (serializeBinary example_tx) w = (Inr b, w')
              \<and> commits_sent w' (writeClient two_channel_client)
                  = commits_sent w (writeClient two_channel_client)" for w
    by simp
  have ans: "\<exists>res. commit_answer (node_of (example_environment (committing_node (Some nonce_conflict)))
                      (writeClient two_channel_client)) h ''broadcast_tx_commit'' p = Inr (Some res)
                 \<and> code (check_tx res) = Some 1
                 \<and> log (check_tx res) = Some ''sequence number does not match''" for h p
    by (simp add: nonce_conflict_def commit_result_def)
  have start: "commits_sent example_world 0 = 0"
    by (simp add: commits_sent_def example_world_def)
  have six: "calls (clients (snd (commitTxAsync (example_environment (committing_node (Some nonce_conflict)))
          two_channel_client example_tx None example_world)) 0)
       = replicate 6 (SendAsync ''broadcast_tx_commit'' (Positional [''aGVsbG8='']))"
    by (simp add: commitTxAsync_def retry_operation_def attempt.simps private_commitTxAsync_def
        sendAsync_def record_call_def interpret_result_def or0_def truthy_def op_retry_def
        isInvalidTxNonceError_def nonce_conflict_def commit_result_def handler_ok_def
        two_channel_client_def default_nonceRetryStrategy_def example_tx_def
        example_environment_def committing_node_def silent_node_def example_world_def
        opts_middleware_def numeral_eq_Suc)
  show ?thesis
    using nonce_conflict_exhausts_retries [of two_channel_client None example_tx
        "example_environment (committing_node (Some nonce_conflict))" example_world, OF mw ans]
      start six
    by (simp add: two_channel_client_def default_nonceRetryStrategy_def INVALID_TX_NONCE_ERROR_def)
qed

text \<open>
  Claim C3. Only the nonce-conflict error is retried. An attempt that fails with any other
  error rejects \<^verbatim>\<open>commitTxAsync\<close> with that error at once: the operation is stopped, the
  attempt was the only one, and the world is the one that attempt left, whatever the retry
  strategy and wherever in the loop the attempt is. A delivery phase with a code other than
  0, after a check that passed, is such a failure.
\<close>

theorem only_nonce_conflict_is_retried:
  "(private_commitTxAsync env c tx (opts_middleware c opts) w = (Inl err, w')
      \<and> \<not> isInvalidTxNonceError err
    \<longrightarrow> commitTxAsync env c tx opts w = ((Inl err, \<lparr>timeouts = 0, attempts = 1\<rparr>), w')
        \<and> attempt env c tx (opts_middleware c opts) op w = ((Inl err, op\<lparr>timeouts := 0\<rparr>), w'))
   \<and> (applyMiddleware (opts_middleware c opts) (serializeBinary tx) w = (Inr b, w1)
      \<and> commit_answer (node_of env (writeClient c)) (calls (clients w1 (writeClient c)))
           ''broadcast_tx_commit'' (Positional [Uint8ArrayToB64 env b]) = Inr (Some res)
      \<and> or0 (code (check_tx res)) = 0 \<and> or0 (code (deliver_tx res)) \<noteq> 0
    \<longrightarrow> fst (commitTxAsync env c tx opts w)
          = (Inl (commit_failure (deliver_tx res)), \<lparr>timeouts = 0, attempts = 1\<rparr>)
        \<and> \<not> isInvalidTxNonceError (commit_failure (deliver_tx res)))"
proof (intro conjI impI)
  assume a: "private_commitTxAsync env c tx (opts_middleware c opts) w = (Inl err, w')
      \<and> \<not> isInvalidTxNonceError err"
  then show "commitTxAsync env c tx opts w = ((Inl err, \<lparr>timeouts = 0, attempts = 1\<rparr>), w')"
    by (simp add: commitTxAsync_def attempt_stops op_stop_def retry_operation_def)
  from a show "attempt env c tx (opts_middleware c opts) op w = ((Inl err, op\<lparr>timeouts := 0\<rparr>), w')"
    by (simp add: attempt_stops op_stop_def)
next
  assume a: "applyMiddleware (opts_middleware c opts) (serializeBinary tx) w = (Inr b, w1)
      \<and> commit_answer (node_of env (writeClient c)) (calls (clients w1 (writeClient c)))
           ''broadcast_tx_commit'' (Positional [Uint8ArrayToB64 env b]) = Inr (Some res)
      \<and> or0 (code (check_tx res)) = 0 \<and> or0 (code (deliver_tx res)) \<noteq> 0"
  then have "\<exists>w2. private_commitTxAsync env c tx (opts_middleware c opts) w
               = (Inl (commit_failure (deliver_tx res)), w2)"
    by (simp add: private_commit_sent check_passed)
  then obtain w2 where "private_commitTxAsync env c tx (opts_middleware c opts) w
               = (Inl (commit_failure (deliver_tx res)), w2)" by blast
  then show "fst (commitTxAsync env c tx opts w)
          = (Inl (commit_failure (deliver_tx res)), \<lparr>timeouts = 0, attempts = 1\<rparr>)"
    by (simp add: commitTxAsync_def attempt_stops op_stop_def retry_operation_def)
  show "\<not> isInvalidTxNonceError (commit_failure (deliver_tx res))" by simp
qed

theorem only_nonce_conflict_is_retried_witness:
  "fst (commitTxAsync (example_environment (committing_node (Some out_of_gas)))
          two_channel_client example_tx None example_world)
     = (Inl (Error ''Failed to commit Tx: out of gas''), \<lparr>timeouts = 0, attempts = 1\<rparr>)
   \<and> calls (clients (snd (commitTxAsync (example_environment (committing_node (Some out_of_gas)))
          two_channel_client example_tx None example_world)) 0)
     = [SendAsync ''broadcast_tx_commit'' (Positional [''aGVsbG8=''])]"
proof -
  let ?env = "example_environment (committing_node (Some out_of_gas))"
  let ?sent = "record_call 0 (SendAsync ''broadcast_tx_commit'' (Positional [''aGVsbG8=''])) example_world"
  have fails: "private_commitTxAsync ?env two_channel_client example_tx
                 (opts_middleware two_channel_client None) example_world
               = (Inl (commit_failure (deliver_tx out_of_gas)), ?sent)"
    by (simp add: private_commit_sent [OF example_pipeline] check_passed out_of_gas_def
        commit_result_def handler_ok_def or0_def)
       (simp add: two_channel_client_def example_environment_def)
  have msg: "commit_failure (deliver_tx out_of_gas) = Error ''Failed to commit Tx: out of gas''"
    by (simp add: commit_failure_def out_of_gas_def commit_result_def truthy_def template_string_def)
  have nn: "\<not> isInvalidTxNonceError (commit_failure (deliver_tx out_of_gas))"
    by simp
  have pipe: "applyMiddleware (opts_middleware two_channel_client None) (serializeBinary example_tx)
                example_world = (Inr hello, example_world)"
    by simp
  have ans: "commit_answer (node_of ?env (writeClient two_channel_client))
               (calls (clients example_world (writeClient two_channel_client)))
               ''broadcast_tx_commit'' (Positional [Uint8ArrayToB64 ?env hello]) = Inr (Some out_of_gas)"
    by simp
  have codes: "or0 (code (check_tx out_of_gas)) = 0" "or0 (code (deliver_tx out_of_gas)) \<noteq> 0"
    by (simp_all add: out_of_gas_def commit_result_def handler_ok_def or0_def)
  note inst = only_nonce_conflict_is_retried [of ?env two_channel_client example_tx None example_world
        "commit_failure (deliver_tx out_of_gas)" ?sent
        "retry_operation default_nonceRetryStrategy" hello example_world out_of_gas]
  from inst fails nn
  have whole: "commitTxAsync ?env two_channel_client example_tx None example_world
          = ((Inl (commit_failure (deliver_tx out_of_gas)), \<lparr>timeouts = 0, attempts = 1\<rparr>), ?sent)"
    by blast
  from inst pipe ans codes
  have "fst (commitTxAsync ?env two_channel_client example_tx None example_world)
          = (Inl (commit_failure (deliver_tx out_of_gas)), \<lparr>timeouts = 0, attempts = 1\<rparr>)"
    by blast
  then show ?thesis
    using whole by (simp add: msg record_call_def example_world_def)
qed

text \<open>
  Claim C10. If \<^verbatim>\<open>broadcast_tx_commit\<close> resolves with an absent result, the attempt does not
  resolve with no value: the read of \<^verbatim>\<open>result.deliver_tx.data\<close> is outside \<^verbatim>\<open>if (result)\<close>,
  so the attempt throws the error of a property access on \<^verbatim>\<open>undefined\<close>, and \<^verbatim>\<open>commitTxAsync\<close>
  is rejected with it after that one attempt.
\<close>

theorem absent_result_throws:
  "applyMiddleware (opts_middleware c opts) (serializeBinary tx) w = (Inr b, w1)
     \<and> commit_answer (node_of env (writeClient c)) (calls (clients w1 (writeClient c)))
          ''broadcast_tx_commit'' (Positional [Uint8ArrayToB64 env b]) = Inr None
   \<longrightarrow> fst (private_commitTxAsync env c tx (opts_middleware c opts) w)
         = Inl (TypeError (cannot_read ''deliver_tx''))
       \<and> fst (private_commitTxAsync env c tx (opts_middleware c opts) w) \<noteq> Inr None
       \<and> fst (commitTxAsync env c tx opts w)
         = (Inl (TypeError (cannot_read ''deliver_tx'')), \<lparr>timeouts = 0, attempts = 1\<rparr>)"
proof (intro impI)
  assume a: "applyMiddleware (opts_middleware c opts) (serializeBinary tx) w = (Inr b, w1)
     \<and> commit_answer (node_of env (writeClient c)) (calls (clients w1 (writeClient c)))
          ''broadcast_tx_commit'' (Positional [Uint8ArrayToB64 env b]) = Inr None"
  then have p: "private_commitTxAsync env c tx (opts_middleware c opts) w
        = (Inl (TypeError (cannot_read ''deliver_tx'')),
           record_call (writeClient c)
              (SendAsync ''broadcast_tx_commit'' (Positional [Uint8ArrayToB64 env b])) w1)"
    by (simp add: private_commit_sent interpret_result_def)
  then show "fst (private_commitTxAsync env c tx (opts_middleware c opts) w)
         = Inl (TypeError (cannot_read ''deliver_tx''))
       \<and> fst (private_commitTxAsync env c tx (opts_middleware c opts) w) \<noteq> Inr None
       \<and> fst (commitTxAsync env c tx opts w)
         = (Inl (TypeError (cannot_read ''deliver_tx'')), \<lparr>timeouts = 0, attempts = 1\<rparr>)"
    by (simp add: commitTxAsync_def attempt_stops op_stop_def retry_operation_def)
qed

theorem absent_result_throws_witness:
  "fst (commitTxAsync (example_environment (committing_node None))
          two_channel_client example_tx None example_world)
     = (Inl (TypeError ''Cannot read properties of undefined (reading deliver_tx)''),
        \<lparr>timeouts = 0, attempts = 1\<rparr>)"
  using absent_result_throws [of two_channel_client None example_tx example_world hello example_world
      "example_environment (committing_node None)"]
  by (simp add: cannot_read_def)

text \<open>
  Claim C4. For middleware \<open>M1 .. Mn\<close> that compute the functions \<open>f1 .. fn\<close> and transaction
  bytes \<open>b\<close>, the attempt hands \<open>fn (.. (f1 b))\<close> to the write channel: it is the payload of the
  one \<^verbatim>\<open>broadcast_tx_commit\<close> request the attempt adds to what the channel has received.
\<close>

theorem middleware_in_order:
  "list_all2 (\<lambda>m f. \<forall>b w. fst (m b w) = Inr (f b)) mws fs \<longrightarrow>
   (\<exists>w1. applyMiddleware mws (serializeBinary tx) w = (Inr (fold (\<lambda>f. f) fs (serializeBinary tx)), w1)
      \<and> calls (clients (snd (private_commitTxAsync env c tx mws w)) (writeClient c))
        = calls (clients w1 (writeClient c))
          @ [SendAsync ''broadcast_tx_commit''
               (Positional [Uint8ArrayToB64 env (fold (\<lambda>f. f) fs (serializeBinary tx))])])"
proof
  assume "list_all2 (\<lambda>m f. \<forall>b w. fst (m b w) = Inr (f b)) mws fs"
  then have "fst (applyMiddleware mws (serializeBinary tx) w) = Inr (fold (\<lambda>f. f) fs (serializeBinary tx))"
    by (rule applyMiddleware_functions)
  then obtain w1 where 1: "applyMiddleware mws (serializeBinary tx) w
        = (Inr (fold (\<lambda>f. f) fs (serializeBinary tx)), w1)"
    by (cases "applyMiddleware mws (serializeBinary tx) w") simp
  show "\<exists>w1. applyMiddleware mws (serializeBinary tx) w = (Inr (fold (\<lambda>f. f) fs (serializeBinary tx)), w1)
      \<and> calls (clients (snd (private_commitTxAsync env c tx mws w)) (writeClient c))
        = calls (clients w1 (writeClient c))
          @ [SendAsync ''broadcast_tx_commit''
               (Positional [Uint8ArrayToB64 env (fold (\<lambda>f. f) fs (serializeBinary tx))])]"
    using 1 by (simp add: private_commit_sent [OF 1] record_call_def)
qed

theorem middleware_in_order_witness:
  "calls (clients (snd (private_commitTxAsync (example_environment silent_node) two_channel_client
             \<lparr>serializeBinary = [111, 108, 108, 101]\<rparr> [append_byte 104, reverse_bytes] example_world)) 0)
     = [SendAsync ''broadcast_tx_commit'' (Positional [''aGVsbG8=''])]"
proof -
  let ?tx = "\<lparr>serializeBinary = [111, 108, 108, 101]\<rparr> :: Message"
  have fs: "list_all2 (\<lambda>m f. \<forall>b w. fst (m b w) = Inr (f b)) [append_byte 104, reverse_bytes]
              [\<lambda>b. b @ [104], rev]"
    by (simp add: append_byte_def reverse_bytes_def)
  have run: "applyMiddleware [append_byte 104, reverse_bytes] (serializeBinary ?tx) example_world
           = (Inr hello, example_world)"
    by (simp add: append_byte_def reverse_bytes_def hello_def)
  from middleware_in_order [of "[append_byte 104, reverse_bytes]" "[\<lambda>b. b @ [104], rev]" ?tx
      example_world "example_environment silent_node" two_channel_client] fs
  obtain w1 where
    "applyMiddleware [append_byte 104, reverse_bytes] (serializeBinary ?tx) example_world
       = (Inr (fold (\<lambda>f. f) [\<lambda>b. b @ [104], rev] (serializeBinary ?tx)), w1)"
    "calls (clients (snd (private_commitTxAsync (example_environment silent_node) two_channel_client
         ?tx [append_byte 104, reverse_bytes] example_world)) (writeClient two_channel_client))
        = calls (clients w1 (writeClient two_channel_client))
          @ [SendAsync ''broadcast_tx_commit''
               (Positional [Uint8ArrayToB64 (example_environment silent_node)
                   (fold (\<lambda>f. f) [\<lambda>b. b @ [104], rev] (serializeBinary ?tx))])]"
    by blast
  then show ?thesis
    using run by (simp add: two_channel_client_def example_world_def example_environment_def hello_def)
qed

text \<open>
  Claim C2, as amended. A result is interpreted by ordered rules. If the code of the check is
  not 0, the attempt fails: with a commit error that carries the code when the log of the
  check is absent or empty, with the nonce-conflict error when the code is 1 and the log is
  \<^verbatim>\<open>sequence number does not match\<close>, and with a commit error that carries the log otherwise.
  Else, if the code of the delivery is not 0, it fails with a commit error that carries the
  log of the delivery, or the code when that log is absent or empty. Else it returns the
  data of the delivery decoded from base64 (or the error of the decoder), or no value when
  the data is absent or empty. An absent code counts as 0.
\<close>

theorem commit_result_rules:
  "(code (check_tx res) = Some n \<and> n \<noteq> 0 \<and> (log (check_tx res) = None \<or> log (check_tx res) = Some [])
      \<longrightarrow> interpret_result env (Some res) = Inl (Error (''Failed to commit Tx: '' @ Number_toString n)))
   \<and> (code (check_tx res) = Some 1 \<and> log (check_tx res) = Some ''sequence number does not match''
      \<longrightarrow> interpret_result env (Some res) = Inl (Error INVALID_TX_NONCE_ERROR))
   \<and> (code (check_tx res) = Some n \<and> n \<noteq> 0 \<and> log (check_tx res) = Some l \<and> l \<noteq> []
        \<and> \<not> (n = 1 \<and> l = ''sequence number does not match'')
      \<longrightarrow> interpret_result env (Some res) = Inl (Error (''Failed to commit Tx: '' @ l)))
   \<and> ((code (check_tx res) = None \<or> code (check_tx res) = Some 0)
        \<and> code (deliver_tx res) = Some n \<and> n \<noteq> 0 \<and> log (deliver_tx res) = Some l \<and> l \<noteq> []
      \<longrightarrow> interpret_result env (Some res) = Inl (Error (''Failed to commit Tx: '' @ l)))
   \<and> ((code (check_tx res) = None \<or> code (check_tx res) = Some 0)
        \<and> code (deliver_tx res) = Some n \<and> n \<noteq> 0
        \<and> (log (deliver_tx res) = None \<or> log (deliver_tx res) = Some [])
      \<longrightarrow> interpret_result env (Some res) = Inl (Error (''Failed to commit Tx: '' @ Number_toString n)))
   \<and> ((code (check_tx res) = None \<or> code (check_tx res) = Some 0)
        \<and> (code (deliver_tx res) = None \<or> code (deliver_tx res) = Some 0)
        \<and> data (deliver_tx res) = Some d \<and> d \<noteq> []
      \<longrightarrow> interpret_result env (Some res) = map_sum id Some (B64ToUint8Array env d))
   \<and> ((code (check_tx res) = None \<or> code (check_tx res) = Some 0)
        \<and> (code (deliver_tx res) = None \<or> code (deliver_tx res) = Some 0)
        \<and> (data (deliver_tx res) = None \<or> data (deliver_tx res) = Some [])
      \<longrightarrow> interpret_result env (Some res) = Inr None)"
proof (intro conjI impI)
  assume "code (check_tx res) = Some n \<and> n \<noteq> 0 \<and> (log (check_tx res) = None \<or> log (check_tx res) = Some [])"
  then show "interpret_result env (Some res) = Inl (Error (''Failed to commit Tx: '' @ Number_toString n))"
    using check_failed [of res n env] commit_failure_code [of "check_tx res" n]
    by (auto simp: truthy_def)
next
  assume "code (check_tx res) = Some 1 \<and> log (check_tx res) = Some ''sequence number does not match''"
  then show "interpret_result env (Some res) = Inl (Error INVALID_TX_NONCE_ERROR)"
    using check_failed [of res 1 env] by (simp add: truthy_def)
next
  assume "code (check_tx res) = Some n \<and> n \<noteq> 0 \<and> log (check_tx res) = Some l \<and> l \<noteq> []
        \<and> \<not> (n = 1 \<and> l = ''sequence number does not match'')"
  then show "interpret_result env (Some res) = Inl (Error (''Failed to commit Tx: '' @ l))"
    using check_failed [of res n env] commit_failure_log [of "check_tx res" l]
    by (auto simp: truthy_def)
next
  assume a: "(code (check_tx res) = None \<or> code (check_tx res) = Some 0)
        \<and> code (deliver_tx res) = Some n \<and> n \<noteq> 0 \<and> log (deliver_tx res) = Some l \<and> l \<noteq> []"
  then have "or0 (code (check_tx res)) = 0" by (auto simp: or0_def)
  then show "interpret_result env (Some res) = Inl (Error (''Failed to commit Tx: '' @ l))"
    using a commit_failure_log [of "deliver_tx res" l] by (simp add: check_passed or0_def)
next
  assume a: "(code (check_tx res) = None \<or> code (check_tx res) = Some 0)
        \<and> code (deliver_tx res) = Some n \<and> n \<noteq> 0
        \<and> (log (deliver_tx res) = None \<or> log (deliver_tx res) = Some [])"
  then have "or0 (code (check_tx res)) = 0" by (auto simp: or0_def)
  then show "interpret_result env (Some res) = Inl (Error (''Failed to commit Tx: '' @ Number_toString n))"
    using a commit_failure_code [of "deliver_tx res" n] by (simp add: check_passed or0_def)
next
  assume a: "(code (check_tx res) = None \<or> code (check_tx res) = Some 0)
        \<and> (code (deliver_tx res) = None \<or> code (deliver_tx res) = Some 0)
        \<and> data (deliver_tx res) = Some d \<and> d \<noteq> []"
  then have "or0 (code (check_tx res)) = 0" "or0 (code (deliver_tx res)) = 0" by (auto simp: or0_def)
  then show "interpret_result env (Some res) = map_sum id Some (B64ToUint8Array env d)"
    using a by (simp add: check_passed decode_if_truthy_def)
next
  assume a: "(code (check_tx res) = None \<or> code (check_tx res) = Some 0)
        \<and> (code (deliver_tx res) = None \<or> code (deliver_tx res) = Some 0)
        \<and> (data (deliver_tx res) = None \<or> data (deliver_tx res) = Some [])"
  then have "or0 (code (check_tx res)) = 0" "or0 (code (deliver_tx res)) = 0" by (auto simp: or0_def)
  then show "interpret_result env (Some res) = Inr None"
    using a by (auto simp add: check_passed decode_if_truthy_def)
qed

theorem commit_result_rules_witness:
  "interpret_result (example_environment silent_node) (Some nonce_conflict)
     = Inl (Error ''Invalid tx nonce'')
   \<and> interpret_result (example_environment silent_node) (Some empty_log_rejection)
       = Inl (Error ''Failed to commit Tx: 2'')
   \<and> interpret_result (example_environment silent_node)
         (Some (commit_result \<lparr>code = Some 3, log = Some ''bad signature'', data = None\<rparr> handler_ok))
       = Inl (Error ''Failed to commit Tx: bad signature'')
   \<and> interpret_result (example_environment silent_node) (Some out_of_gas)
       = Inl (Error ''Failed to commit Tx: out of gas'')
   \<and> interpret_result (example_environment silent_node)
         (Some (commit_result handler_ok \<lparr>code = Some 7, log = None, data = None\<rparr>))
       = Inl (Error ''Failed to commit Tx: 7'')
   \<and> interpret_result (example_environment silent_node) (Some hello_delivered)
       = Inr (Some [104, 101, 108, 108, 111])
   \<and> interpret_result (example_environment silent_node) (Some (commit_result handler_ok handler_ok))
       = Inr None"
proof -
  let ?env = "example_environment silent_node"
  let ?bad = "commit_result \<lparr>code = Some 3, log = Some ''bad signature'', data = None\<rparr> handler_ok"
  let ?seven = "commit_result handler_ok \<lparr>code = Some 7, log = None, data = None\<rparr>"
  have 1: "interpret_result ?env (Some nonce_conflict) = Inl (Error INVALID_TX_NONCE_ERROR)"
    using commit_result_rules [where res = nonce_conflict and env = ?env]
    by (simp add: nonce_conflict_def commit_result_def)
  have 2: "interpret_result ?env (Some empty_log_rejection)
             = Inl (Error (''Failed to commit Tx: '' @ Number_toString 2))"
    using commit_result_rules [where res = empty_log_rejection and env = ?env and n = 2]
    by (simp add: empty_log_rejection_def commit_result_def)
  have 3: "interpret_result ?env (Some out_of_gas) = Inl (Error (''Failed to commit Tx: '' @ ''out of gas''))"
    using commit_result_rules [where res = out_of_gas and env = ?env and n = 5 and l = "''out of gas''"]
    by (simp add: out_of_gas_def commit_result_def handler_ok_def)
  have 4: "interpret_result ?env (Some hello_delivered)
             = map_sum id Some (B64ToUint8Array ?env ''aGVsbG8='')"
    using commit_result_rules [where res = hello_delivered and env = ?env and d = "''aGVsbG8=''"]
    by (simp add: hello_delivered_def commit_result_def handler_ok_def)
  have 5: "interpret_result ?env (Some (commit_result handler_ok handler_ok)) = Inr None"
    using commit_result_rules [where res = "commit_result handler_ok handler_ok" and env = ?env]
    by (simp add: commit_result_def handler_ok_def)
  have 6: "interpret_result ?env (Some ?bad) = Inl (Error (''Failed to commit Tx: '' @ ''bad signature''))"
    using commit_result_rules [where res = ?bad and env = ?env and n = 3 and l = "''bad signature''"]
    by (simp add: commit_result_def)
  have 7: "interpret_result ?env (Some ?seven) = Inl (Error (''Failed to commit Tx: '' @ Number_toString 7))"
    using commit_result_rules [where res = ?seven and env = ?env and n = 7]
    by (simp add: commit_result_def handler_ok_def)
  show ?thesis
    unfolding 1 2 3 4 5 6 7
    by (simp add: INVALID_TX_NONCE_ERROR_def Number_toString_def digits.simps
        example_environment_def hello_def)
qed

text \<open>
  Claim C2 as it is worded fails where the log of a failed check is the empty string: the
  log is not absent, so the worded rules carry the log, and the code carries the number.
\<close>

theorem absent_is_not_empty_counterexample:
  "log (check_tx empty_log_rejection) \<noteq> None
   \<and> spec_interpret_result (example_environment silent_node) empty_log_rejection
       = Inl (Error ''Failed to commit Tx: '')
   \<and> interpret_result (example_environment silent_node) (Some empty_log_rejection)
       = Inl (Error ''Failed to commit Tx: 2'')"
  by (simp add: empty_log_rejection_def commit_result_def spec_interpret_result_def
      interpret_result_def or0_def truthy_def template_number_def
      Number_toString_def digits.simps)

section \<open>The claims about reading and routing\<close>

lemma sendAsync_world [simp]:
  "snd (sendAsync answer r method params w) = record_call r (SendAsync method params) w"
  by (simp add: sendAsync_def)

lemma sendAsync_value [simp]:
  "fst (sendAsync answer r method params w) = answer (calls (clients w r)) method params"
  by (simp add: sendAsync_def)

lemma then_async_world [simp]: "snd (then_async f g w) = snd (f w)"
  by (simp add: then_async_def split: prod.splits sum.splits)

lemma then_async_value:
  "fst (then_async f g w) = (case fst (f w) of Inl err \<Rightarrow> Inl err | Inr v \<Rightarrow> g v)"
  by (simp add: then_async_def split: prod.splits sum.splits)

lemma new_calls_record_call [simp]:
  "new_calls r w (record_call r' call w) = (if r = r' then [call] else [])"
  by (simp add: new_calls_def record_call_def)

lemma sent_on_record_call [simp]:
  "sent_on target other method w (record_call r (SendAsync method' params) w)
     \<longleftrightarrow> r = target \<and> method' = method"
  by (auto simp add: sent_on_def method_of_def)

lemma example_string_answer [simp]:
  "string_answer (node_of (example_environment (answering_node s)) r) h method params = Inr s"
  by (simp add: example_environment_def answering_node_def)

text \<open>
  Claim C8. \<^verbatim>\<open>queryAsync\<close> returns no value when the raw result of the channel is absent or
  empty, and otherwise the bytes that the raw result decodes to from base64.
\<close>

theorem query_result:
  "string_answer (node_of env (readClient c)) (calls (clients w (readClient c))) ''query''
      (query_params env contract query vmType callerAddr) = Inr result
   \<longrightarrow> (result = None \<or> result = Some []
          \<longrightarrow> fst (queryAsync env c contract query vmType callerAddr w) = Inr None)
       \<and> (\<forall>s. result = Some s \<and> s \<noteq> []
          \<longrightarrow> fst (queryAsync env c contract query vmType callerAddr w)
               = map_sum id Some (B64ToUint8Array env s))
       \<and> (\<forall>s decoded. result = Some s \<and> s \<noteq> [] \<and> B64ToUint8Array env s = Inr decoded
          \<longrightarrow> fst (queryAsync env c contract query vmType callerAddr w) = Inr (Some decoded))"
  by (auto simp add: queryAsync_def then_async_value decode_if_truthy_def)

theorem query_result_witness:
  "fst (queryAsync (example_environment (answering_node (Some ''aGVsbG8=''))) two_channel_client
          \<lparr>chainId = ''default'', local = \<lparr>local_bytes = [1, 2]\<rparr>\<rparr> None None None example_world)
     = Inr (Some [104, 101, 108, 108, 111])
   \<and> fst (queryAsync (example_environment (answering_node (Some []))) two_channel_client
          \<lparr>chainId = ''default'', local = \<lparr>local_bytes = [1, 2]\<rparr>\<rparr> None None None example_world)
     = Inr None
   \<and> fst (queryAsync (example_environment (answering_node None)) two_channel_client
          \<lparr>chainId = ''default'', local = \<lparr>local_bytes = [1, 2]\<rparr>\<rparr> None None None example_world)
     = Inr None"
proof -
  let ?a = "\<lparr>chainId = ''default'', local = \<lparr>local_bytes = [1, 2]\<rparr>\<rparr> :: Address"
  have 1: "fst (queryAsync (example_environment (answering_node (Some ''aGVsbG8=''))) two_channel_client
             ?a None None None example_world) = Inr (Some hello)"
    using query_result [where env = "example_environment (answering_node (Some ''aGVsbG8=''))"
        and c = two_channel_client and w = example_world and contract = ?a and query = None
        and vmType = None and callerAddr = None and result = "Some ''aGVsbG8=''"]
    by (simp add: example_environment_def answering_node_def)
  have 2: "fst (queryAsync (example_environment (answering_node (Some []))) two_channel_client
             ?a None None None example_world) = Inr None"
    using query_result [where env = "example_environment (answering_node (Some []))"
        and c = two_channel_client and w = example_world and contract = ?a and query = None
        and vmType = None and callerAddr = None and result = "Some []"]
    by simp
  have 3: "fst (queryAsync (example_environment (answering_node None)) two_channel_client
             ?a None None None example_world) = Inr None"
    using query_result [where env = "example_environment (answering_node None)"
        and c = two_channel_client and w = example_world and contract = ?a and query = None
        and vmType = None and callerAddr = None and result = None]
    by simp
  show ?thesis unfolding 1 2 3 by (simp add: hello_def)
qed

text \<open>
  Claim C6, as amended. The channel of a call is fixed by its kind: a commit sends
  \<^verbatim>\<open>broadcast_tx_commit\<close> on the write channel, and the nonce lookup, queries, receipts, logs,
  filters and subscriptions each send their one request on the read channel; nothing goes
  to the other channel.
\<close>

theorem channel_routing:
  "(applyMiddleware mws (serializeBinary tx) w = (Inr b, wm)
      \<longrightarrow> sent_on (writeClient c) (readClient c) ''broadcast_tx_commit'' wm
            (snd (private_commitTxAsync env c tx mws w)))
   \<and> sent_on (readClient c) (writeClient c) ''nonce'' w (snd (getNonceAsync env c key w))
   \<and> sent_on (readClient c) (writeClient c) ''query'' w
        (snd (queryAsync env c contract query vmType callerAddr w))
   \<and> sent_on (readClient c) (writeClient c) ''evmtxreceipt'' w
        (snd (getEvmTxReceiptAsync env c txHash w))
   \<and> sent_on (readClient c) (writeClient c) ''getevmlogs'' w
        (snd (getEvmLogsAsync env c filter_json w))
   \<and> sent_on (readClient c) (writeClient c) ''newevmfilter'' w
        (snd (newEvmFilterAsync env c filter_json w))
   \<and> sent_on (readClient c) (writeClient c) ''getevmfilterchanges'' w
        (snd (getEvmFilterChangesAsync env c ident w))
   \<and> sent_on (readClient c) (writeClient c) ''newblockevmfilter'' w
        (snd (newBlockEvmFilterAsync env c w))
   \<and> sent_on (readClient c) (writeClient c) ''newpendingtransactionevmfilter'' w
        (snd (newPendingTransactionEvmFilterAsync env c w))
   \<and> sent_on (readClient c) (writeClient c) ''uninstallevmfilter'' w
        (snd (uninstallEvmFilterAsync env c ident w))
   \<and> sent_on (readClient c) (writeClient c) ''evmsubscribe'' w
        (snd (evmSubscribeAsync env c method filter_json w))
   \<and> sent_on (readClient c) (writeClient c) ''evmunsubscribe'' w
        (snd (evmUnsubscribeAsync env c ident w))"
proof (intro conjI impI)
  assume "applyMiddleware mws (serializeBinary tx) w = (Inr b, wm)"
  then show "sent_on (writeClient c) (readClient c) ''broadcast_tx_commit'' wm
            (snd (private_commitTxAsync env c tx mws w))"
    by (simp add: private_commit_sent)
qed (simp_all add: getNonceAsync_def queryAsync_def getEvmTxReceiptAsync_def getEvmLogsAsync_def
      newEvmFilterAsync_def getEvmFilterChangesAsync_def newBlockEvmFilterAsync_def
      newPendingTransactionEvmFilterAsync_def uninstallEvmFilterAsync_def evmSubscribeAsync_def
      evmUnsubscribeAsync_def)

theorem channel_routing_witness:
  "sent_on 0 1 ''broadcast_tx_commit'' example_world
     (snd (private_commitTxAsync (example_environment silent_node) two_channel_client example_tx []
        example_world))
   \<and> sent_on 1 0 ''nonce'' example_world
       (snd (getNonceAsync (example_environment silent_node) two_channel_client ''0xA1'' example_world))
   \<and> sent_on 1 0 ''query'' example_world
       (snd (queryAsync (example_environment silent_node) two_channel_client
          \<lparr>chainId = ''default'', local = \<lparr>local_bytes = [1, 2]\<rparr>\<rparr> None None None example_world))"
  using channel_routing [where c = two_channel_client and w = example_world and wm = example_world
      and tx = example_tx and mws = "[]" and b = hello and env = "example_environment silent_node"
      and key = "''0xA1''" and contract = "\<lparr>chainId = ''default'', local = \<lparr>local_bytes = [1, 2]\<rparr>\<rparr>"
      and query = None and vmType = None and callerAddr = None]
  by (simp add: two_channel_client_def example_tx_def)

text \<open>
  Claim C6 as it is worded has \<^verbatim>\<open>getNonceAsync\<close> send on the write channel. With two
  channels the write channel receives nothing from it, and the read channel the request.
\<close>

theorem nonce_lookup_on_read_channel_counterexample:
  "\<not> sent_on (writeClient two_channel_client) (readClient two_channel_client) ''nonce'' example_world
       (snd (getNonceAsync (example_environment silent_node) two_channel_client ''0xA1'' example_world))
   \<and> calls (clients (snd (getNonceAsync (example_environment silent_node) two_channel_client ''0xA1''
        example_world)) (writeClient two_channel_client)) = []
   \<and> calls (clients (snd (getNonceAsync (example_environment silent_node) two_channel_client ''0xA1''
        example_world)) (readClient two_channel_client))
       = [SendAsync ''nonce'' (Named [(''key'', JString ''0xA1'')])]"
  by (simp add: getNonceAsync_def two_channel_client_def)
     (simp add: record_call_def example_world_def)

section \<open>The claim about notifications\<close>

lemma emitted_of_emit [simp]:
  "emitted_of event (emit event' args w)
     = emitted_of event w @ (if event' = event then [args] else [])"
  by (simp add: emitted_of_def emit_def)




section \<open>Facts about the listener registry\<close>

lemma listeners_set_listeners [simp]:
  "listeners (set_listeners event ls w) event' = (if event' = event then ls else listeners w event')"
  by (simp add: listeners_def set_listeners_def delete_conv' update_conv')

lemma clients_set_listeners [simp]: "clients (set_listeners event ls w) = clients w"
  by (simp add: set_listeners_def)

lemma listeners_record_call [simp]: "listeners (record_call r call w) = listeners w"
  by (simp add: listeners_def record_call_def fun_eq_iff)

lemma calls_record_call [simp]:
  "calls (clients (record_call r call w) r') = (if r' = r then calls (clients w r) @ [call] else calls (clients w r'))"
  by (simp add: record_call_def)

lemma listeners_call_listener [simp]: "listeners (call_listener c event l w) = listeners w"
  by (cases l) (simp_all add: rpc_on_def rpc_removeListener_def)

lemma listenerCount_call_listener [simp]:
  "listenerCount (call_listener c event l w) = listenerCount w"
  by (simp add: listenerCount_def fun_eq_iff)

lemma call_consumers:
  "NewListenerHook \<notin> set ls \<Longrightarrow> RemoveListenerHook \<notin> set ls \<Longrightarrow>
   fold (call_listener c event) ls w = w"
proof (induction ls arbitrary: w)
  case Nil
  then show ?case by simp
next
  case (Cons l ls)
  then show ?case by (cases l) simp_all
qed

lemma call_new_hook:
  "count_list ls NewListenerHook = 1 \<Longrightarrow> RemoveListenerHook \<notin> set ls \<Longrightarrow>
   fold (call_listener c event) ls w = call_listener c event NewListenerHook w"
proof (induction ls arbitrary: w)
  case Nil
  then show ?case by simp
next
  case (Cons l ls)
  show ?case
  proof (cases l)
    case NewListenerHook
    with Cons.prems have "NewListenerHook \<notin> set ls" "RemoveListenerHook \<notin> set ls"
      by (auto simp: count_list_0_iff)
    then show ?thesis using NewListenerHook by (simp add: call_consumers del: call_listener.simps)
  next
    case RemoveListenerHook
    with Cons.prems show ?thesis by simp
  next
    case (Consumer n)
    with Cons show ?thesis by simp
  qed
qed

lemma call_remove_hook:
  "count_list ls RemoveListenerHook = 1 \<Longrightarrow> NewListenerHook \<notin> set ls \<Longrightarrow>
   fold (call_listener c event) ls w = call_listener c event RemoveListenerHook w"
proof (induction ls arbitrary: w)
  case Nil
  then show ?case by simp
next
  case (Cons l ls)
  show ?case
  proof (cases l)
    case RemoveListenerHook
    with Cons.prems have "NewListenerHook \<notin> set ls" "RemoveListenerHook \<notin> set ls"
      by (auto simp: count_list_0_iff)
    then show ?thesis using RemoveListenerHook by (simp add: call_consumers del: call_listener.simps)
  next
    case NewListenerHook
    with Cons.prems show ?thesis by simp
  next
    case (Consumer n)
    with Cons show ?thesis by simp
  qed
qed

lemma count_nonempty: "count_list ls x = 1 \<Longrightarrow> ls \<noteq> []"
  by auto

lemma on_consumer:
  assumes "hooks_installed w"
  shows "on c event (Consumer n) w
           = set_listeners event (listeners w event @ [Consumer n])
               (call_listener c event NewListenerHook w)"
  using assms count_nonempty [of "listeners w newListener_event" NewListenerHook]
  by (simp add: on_def hooks_installed_def emit_registry_def call_new_hook Let_def
      del: call_listener.simps)

lemma set_remove_last: "set (remove_last x xs) \<subseteq> set xs"
  by (induction xs) auto

lemma count_remove_last: "x \<noteq> y \<Longrightarrow> count_list (remove_last x xs) y = count_list xs y"
  by (induction xs) auto

lemma length_remove_last: "x \<in> set xs \<Longrightarrow> Suc (length (remove_last x xs)) = length xs"
  by (induction xs) auto

lemma hooks_after_removal:
  assumes "hooks_installed w"
  shows "hooks_installed (set_listeners event (remove_last (Consumer n) (listeners w event)) w)"
  using assms set_remove_last [of "Consumer n" "listeners w event"]
  by (auto simp add: hooks_installed_def count_remove_last)

lemma hooks_after_addition:
  assumes "hooks_installed w"
  shows "hooks_installed (set_listeners event (listeners w event @ [Consumer n]) w)"
  using assms by (auto simp add: hooks_installed_def)

lemma hooks_call_listener [simp]: "hooks_installed (call_listener c event l w) = hooks_installed w"
  by (simp add: hooks_installed_def)

lemma hooks_set_listeners_cong:
  "listeners w' = listeners w \<Longrightarrow>
   hooks_installed (set_listeners event ls w') = hooks_installed (set_listeners event ls w)"
  by (simp add: hooks_installed_def)

lemma removeListener_consumer:
  assumes "hooks_installed w" and "Consumer n \<in> set (listeners w event)"
  shows "removeListener c event (Consumer n) w
           = call_listener c event RemoveListenerHook
               (set_listeners event (remove_last (Consumer n) (listeners w event)) w)"
proof -
  let ?w1 = "set_listeners event (remove_last (Consumer n) (listeners w event)) w"
  have h: "hooks_installed ?w1" using assms(1) by (rule hooks_after_removal)
  then have "listeners ?w1 removeListener_event \<noteq> []"
    using count_nonempty [of "listeners ?w1 removeListener_event" RemoveListenerHook]
    by (simp add: hooks_installed_def)
  moreover have "fold (call_listener c event) (listeners ?w1 removeListener_event) ?w1
                   = call_listener c event RemoveListenerHook ?w1"
    using h by (intro call_remove_hook) (simp_all add: hooks_installed_def)
  ultimately show ?thesis
    using assms(2) by (simp add: removeListener_def emit_registry_def Let_def del: call_listener.simps listeners_set_listeners)
qed

lemma removeListener_absent:
  "l \<notin> set (listeners w event) \<Longrightarrow> removeListener c event l w = w"
  by (simp add: removeListener_def)

lemma attach_calls_record_call [simp]:
  "attach_calls (record_call r call w) r'
     = attach_calls w r' + (if r' = r \<and> call = On RPC_Message emitContractEvent then 1 else 0)"
  by (simp add: attach_calls_def)

lemma detach_calls_record_call [simp]:
  "detach_calls (record_call r call w) r'
     = detach_calls w r' + (if r' = r \<and> call = RemoveListener RPC_Message emitContractEvent then 1 else 0)"
  by (simp add: detach_calls_def)

lemma disconnects_record_call [simp]:
  "disconnects (record_call r call w) r'
     = disconnects w r' + (if r' = r \<and> call = Disconnect then 1 else 0)"
  by (simp add: disconnects_def)

lemma attach_calls_set_listeners [simp]: "attach_calls (set_listeners event ls w) = attach_calls w"
  by (simp add: attach_calls_def fun_eq_iff)

lemma detach_calls_set_listeners [simp]: "detach_calls (set_listeners event ls w) = detach_calls w"
  by (simp add: detach_calls_def fun_eq_iff)

lemma disconnects_set_listeners [simp]: "disconnects (set_listeners event ls w) = disconnects w"
  by (simp add: disconnects_def fun_eq_iff)

lemma listenerCount_set_listeners [simp]:
  "listenerCount (set_listeners event ls w) event'
     = (if event' = event then length ls else listenerCount w event')"
  by (simp add: listenerCount_def)

lemma disconnects_call_listener [simp]: "disconnects (call_listener c event l w) = disconnects w"
  by (cases l) (simp_all add: rpc_on_def rpc_removeListener_def fun_eq_iff)

lemma disconnects_emit_registry [simp]: "disconnects (emit_registry c name event w) = disconnects w"
proof -
  have "disconnects (fold (call_listener c event) ls w) = disconnects w" for ls
    by (induction ls arbitrary: w) (simp_all del: call_listener.simps)
  then show ?thesis by (simp add: emit_registry_def)
qed

lemma disconnects_removeListener [simp]: "disconnects (removeListener c event l w) = disconnects w"
  by (simp add: removeListener_def Let_def)

lemma disconnects_removeAllListeners_of [simp]:
  "disconnects (removeAllListeners_of c event w) = disconnects w"
proof -
  have "disconnects (fold (removeListener c event) ls w) = disconnects w" for ls
    by (induction ls arbitrary: w) simp_all
  then show ?thesis by (simp add: removeAllListeners_of_def)
qed

lemma disconnects_registry_update [simp]: "disconnects (w\<lparr>registry := reg\<rparr>) = disconnects w"
  by (simp add: disconnects_def fun_eq_iff)

lemma disconnects_removeAllListeners [simp]: "disconnects (removeAllListeners c w) = disconnects w"
proof -
  have "disconnects (fold (removeAllListeners_of c) keys w) = disconnects w" for keys
    by (induction keys arbitrary: w) simp_all
  then show ?thesis by (simp add: removeAllListeners_def Let_def)
qed

lemma registry_removeAllListeners [simp]: "registry (removeAllListeners c w) = []"
  by (simp add: removeAllListeners_def Let_def)

lemma registry_record_call [simp]: "registry (record_call r call w) = registry w"
  by (simp add: record_call_def)

section \<open>The claims about teardown and subscription\<close>

text \<open>
  Claim C7. \<^verbatim>\<open>disconnect()\<close> removes every registration of a listener, closes the write
  channel, and closes the read channel when it is another object: each of the client's
  channels is disconnected exactly once more than before, also when the two are the same
  object, and no other channel is.
\<close>

theorem disconnect_closes_each_channel_once:
  "registry (disconnect c w) = []
   \<and> (\<forall>event. listeners (disconnect c w) event = [])
   \<and> disconnects (disconnect c w) (writeClient c) = disconnects w (writeClient c) + 1
   \<and> disconnects (disconnect c w) (readClient c) = disconnects w (readClient c) + 1
   \<and> (\<forall>r. r \<noteq> writeClient c \<and> r \<noteq> readClient c
        \<longrightarrow> disconnects (disconnect c w) r = disconnects w r)"
  by (simp add: disconnect_def Let_def rpc_disconnect_def listeners_def)

theorem disconnect_closes_each_channel_once_witness:
  "disconnects (disconnect one_channel_client (on one_channel_client ''contractEvent'' (Consumer 1) example_world)) 0 = 1
   \<and> disconnects (disconnect two_channel_client example_world) 0 = 1
   \<and> disconnects (disconnect two_channel_client example_world) 1 = 1
   \<and> disconnects (disconnect two_channel_client example_world) 2 = 0
   \<and> listeners (disconnect one_channel_client (on one_channel_client ''contractEvent'' (Consumer 1) example_world)) ''contractEvent'' = []"
  using disconnect_closes_each_channel_once [of one_channel_client "on one_channel_client ''contractEvent'' (Consumer 1) example_world"]
    disconnect_closes_each_channel_once [of two_channel_client example_world]
  by (simp add: one_channel_client_def two_channel_client_def)
     (simp add: disconnects_def example_world_def on_def listeners_def set_listeners_def)

lemma attach_calls_new_hook:
  "attach_calls (call_listener c event NewListenerHook w) r
     = attach_calls w r + (if r = readClient c \<and> event = ClientEvent_Contract
                              \<and> listenerCount w ClientEvent_Contract = 0 then 1 else 0)"
  by (simp add: rpc_on_def)

lemma detach_calls_new_hook: "detach_calls (call_listener c event NewListenerHook w) r = detach_calls w r"
  by (simp add: rpc_on_def)

lemma attach_calls_remove_hook: "attach_calls (call_listener c event RemoveListenerHook w) r = attach_calls w r"
  by (simp add: rpc_removeListener_def)

lemma detach_calls_remove_hook:
  "detach_calls (call_listener c event RemoveListenerHook w) r
     = detach_calls w r + (if r = readClient c \<and> event = ClientEvent_Contract
                              \<and> listenerCount w ClientEvent_Contract = 0 then 1 else 0)"
  by (simp add: rpc_removeListener_def)

lemma register_step:
  assumes "hooks_installed w"
  shows "hooks_installed (on c event (Consumer n) w)"
    and "listenerCount (on c event (Consumer n) w) e
           = listenerCount w e + (if e = event then 1 else 0)"
    and "attach_calls (on c event (Consumer n) w) (readClient c)
           = attach_calls w (readClient c)
             + (if event = ClientEvent_Contract \<and> listenerCount w ClientEvent_Contract = 0 then 1 else 0)"
    and "detach_calls (on c event (Consumer n) w) (readClient c) = detach_calls w (readClient c)"
proof -
  note eq = on_consumer [OF assms, of c event n]
  have "hooks_installed (set_listeners event (listeners w event @ [Consumer n]) w)"
    using assms by (rule hooks_after_addition)
  then show "hooks_installed (on c event (Consumer n) w)"
    unfolding eq using hooks_set_listeners_cong [of "call_listener c event NewListenerHook w" w]
    by (simp del: call_listener.simps)
  show "listenerCount (on c event (Consumer n) w) e
           = listenerCount w e + (if e = event then 1 else 0)"
    unfolding eq by (simp add: listenerCount_def del: call_listener.simps)
  show "attach_calls (on c event (Consumer n) w) (readClient c)
           = attach_calls w (readClient c)
             + (if event = ClientEvent_Contract \<and> listenerCount w ClientEvent_Contract = 0 then 1 else 0)"
    unfolding eq by (simp add: attach_calls_new_hook del: call_listener.simps)
  show "detach_calls (on c event (Consumer n) w) (readClient c) = detach_calls w (readClient c)"
    unfolding eq by (simp add: detach_calls_new_hook del: call_listener.simps)
qed

lemma unregister_step:
  assumes "hooks_installed w"
  shows "hooks_installed (removeListener c event (Consumer n) w)"
    and "listenerCount (removeListener c event (Consumer n) w) e
           + (if e = event \<and> Consumer n \<in> set (listeners w event) then 1 else 0)
           = listenerCount w e"
    and "attach_calls (removeListener c event (Consumer n) w) (readClient c) = attach_calls w (readClient c)"
    and "detach_calls (removeListener c event (Consumer n) w) (readClient c)
           = detach_calls w (readClient c)
             + (if event = ClientEvent_Contract \<and> Consumer n \<in> set (listeners w event)
                   \<and> listenerCount w ClientEvent_Contract = 1 then 1 else 0)"
proof -
  show "hooks_installed (removeListener c event (Consumer n) w)"
  proof (cases "Consumer n \<in> set (listeners w event)")
    case True
    show ?thesis
      unfolding removeListener_consumer [OF assms True]
      using hooks_after_removal [OF assms] by (simp del: call_listener.simps)
  next
    case False
    then show ?thesis using assms by (simp add: removeListener_absent)
  qed
  show "listenerCount (removeListener c event (Consumer n) w) e
           + (if e = event \<and> Consumer n \<in> set (listeners w event) then 1 else 0)
           = listenerCount w e"
  proof (cases "Consumer n \<in> set (listeners w event)")
    case True
    show ?thesis
      unfolding removeListener_consumer [OF assms True]
      using True length_remove_last [of "Consumer n" "listeners w event"]
      by (simp add: listenerCount_def del: call_listener.simps)
  next
    case False
    then show ?thesis by (simp add: removeListener_absent)
  qed
  show "attach_calls (removeListener c event (Consumer n) w) (readClient c) = attach_calls w (readClient c)"
  proof (cases "Consumer n \<in> set (listeners w event)")
    case True
    show ?thesis
      unfolding removeListener_consumer [OF assms True]
      by (simp add: attach_calls_remove_hook del: call_listener.simps)
  next
    case False
    then show ?thesis by (simp add: removeListener_absent)
  qed
  show "detach_calls (removeListener c event (Consumer n) w) (readClient c)
           = detach_calls w (readClient c)
             + (if event = ClientEvent_Contract \<and> Consumer n \<in> set (listeners w event)
                   \<and> listenerCount w ClientEvent_Contract = 1 then 1 else 0)"
  proof (cases "Consumer n \<in> set (listeners w event)")
    case True
    show ?thesis
      unfolding removeListener_consumer [OF assms True]
      using True length_remove_last [of "Consumer n" "listeners w event"]
      by (auto simp add: detach_calls_remove_hook listenerCount_def simp del: call_listener.simps)
  next
    case False
    then show ?thesis by (simp add: removeListener_absent)
  qed
qed

lemma registration_step:
  assumes "hooks_installed w"
  shows "hooks_installed (apply_registration c op w)"
    and "attach_calls (apply_registration c op w) (readClient c)
           = attach_calls w (readClient c)
             + (if listenerCount w ClientEvent_Contract = 0
                   \<and> listenerCount (apply_registration c op w) ClientEvent_Contract = 1 then 1 else 0)"
    and "detach_calls (apply_registration c op w) (readClient c)
           = detach_calls w (readClient c)
             + (if listenerCount w ClientEvent_Contract = 1
                   \<and> listenerCount (apply_registration c op w) ClientEvent_Contract = 0 then 1 else 0)"
proof -
  show "hooks_installed (apply_registration c op w)"
    using assms by (cases op) (simp_all add: register_step(1) unregister_step(1))
  show "attach_calls (apply_registration c op w) (readClient c)
           = attach_calls w (readClient c)
             + (if listenerCount w ClientEvent_Contract = 0
                   \<and> listenerCount (apply_registration c op w) ClientEvent_Contract = 1 then 1 else 0)"
  proof (cases op)
    case (Register event n)
    then show ?thesis
      using register_step(2) [OF assms, of c event n ClientEvent_Contract]
        register_step(3) [OF assms, of c event n]
      by auto
  next
    case (Unregister event n)
    then show ?thesis
      using unregister_step(2) [OF assms, of c event n ClientEvent_Contract]
        unregister_step(3) [OF assms, of c event n]
      by (auto split: if_splits)
  qed
  show "detach_calls (apply_registration c op w) (readClient c)
           = detach_calls w (readClient c)
             + (if listenerCount w ClientEvent_Contract = 1
                   \<and> listenerCount (apply_registration c op w) ClientEvent_Contract = 0 then 1 else 0)"
  proof (cases op)
    case (Register event n)
    then show ?thesis
      using register_step(2) [OF assms, of c event n ClientEvent_Contract]
        register_step(4) [OF assms, of c event n]
      by auto
  next
    case (Unregister event n)
    then show ?thesis
      using unregister_step(2) [OF assms, of c event n ClientEvent_Contract]
        unregister_step(4) [OF assms, of c event n]
      by (auto split: if_splits)
  qed
qed

lemma registration_count:
  assumes "hooks_installed w"
  shows "listenerCount (apply_registration c op w) e = listenerCount w e + 1
         \<or> listenerCount (apply_registration c op w) e = listenerCount w e
         \<or> listenerCount (apply_registration c op w) e + 1 = listenerCount w e"
proof (cases op)
  case (Register event n)
  then show ?thesis using register_step(2) [OF assms, of c event n e] by simp
next
  case (Unregister event n)
  then show ?thesis using unregister_step(2) [OF assms, of c event n e] by (simp split: if_splits)
qed

lemma registrations_invariant:
  assumes "hooks_installed w0"
  shows "hooks_installed (fold (apply_registration c) ops w0)
         \<and> attach_calls (fold (apply_registration c) ops w0) (readClient c)
             + detach_calls w0 (readClient c)
             + (if listenerCount w0 ClientEvent_Contract = 0 then 0 else 1)
           = detach_calls (fold (apply_registration c) ops w0) (readClient c)
             + attach_calls w0 (readClient c)
             + (if listenerCount (fold (apply_registration c) ops w0) ClientEvent_Contract = 0
                then 0 else 1)"
proof (induction ops rule: rev_induct)
  case Nil
  then show ?case using assms by simp
next
  case (snoc op ops)
  let ?w = "fold (apply_registration c) ops w0"
  from snoc have h: "hooks_installed ?w" by simp
  show ?case
    using snoc registration_step [OF h, of c op] registration_count [OF h, of c op ClientEvent_Contract]
    by (auto split: if_splits)
qed

lemma registry_forward_lifecycle [simp]: "registry (forward_lifecycle r w) = registry w"
  by (simp add: forward_lifecycle_def rpc_on_def)

lemma registry_resolve_endpoint [simp]: "registry (snd (resolve_endpoint e w)) = registry w"
  by (simp add: resolve_endpoint_def new_WSRPCClient_def split: endpoint.splits)

lemma resolve_endpoint_registry:
  "resolve_endpoint e w = (r, w') \<Longrightarrow> registry w' = registry w"
  using registry_resolve_endpoint [of e w] by simp

lemma install_hooks:
  assumes "registry w = []"
  shows "hooks_installed (on c removeListener_event RemoveListenerHook
                           (on c newListener_event NewListenerHook w))"
    and "listenerCount (on c removeListener_event RemoveListenerHook
                           (on c newListener_event NewListenerHook w)) ClientEvent_Contract = 0"
proof -
  have e: "listeners w event = []" for event
    using assms by (simp add: listeners_def)
  have 1: "on c newListener_event NewListenerHook w = set_listeners newListener_event [NewListenerHook] w"
    by (simp add: on_def e)
  have 2: "on c removeListener_event RemoveListenerHook (set_listeners newListener_event [NewListenerHook] w)
           = set_listeners removeListener_event [RemoveListenerHook]
               (set_listeners newListener_event [NewListenerHook] w)"
    by (simp add: on_def emit_registry_def e newListener_event_def removeListener_event_def
        ClientEvent_Contract_def)
  show "hooks_installed (on c removeListener_event RemoveListenerHook
                           (on c newListener_event NewListenerHook w))"
    unfolding 1 2 by (simp add: hooks_installed_def e newListener_event_def removeListener_event_def)
  show "listenerCount (on c removeListener_event RemoveListenerHook
                           (on c newListener_event NewListenerHook w)) ClientEvent_Contract = 0"
    unfolding 1 2
    by (simp add: listenerCount_def e newListener_event_def removeListener_event_def
        ClientEvent_Contract_def)
qed

lemma constructor_installs_hooks:
  assumes "Client_constructor chain writeEndpoint readEndpoint w = (c, w0)"
  shows "\<exists>w3. registry w3 = []
           \<and> w0 = on c removeListener_event RemoveListenerHook (on c newListener_event NewListenerHook w3)"
proof -
  obtain wc w1 where 1: "resolve_endpoint writeEndpoint (w\<lparr>registry := []\<rparr>) = (wc, w1)"
    by (cases "resolve_endpoint writeEndpoint (w\<lparr>registry := []\<rparr>)")
  then have r1: "registry w1 = []"
    using resolve_endpoint_registry by fastforce
  show ?thesis
  proof (cases "falsy_endpoint readEndpoint \<or> Some writeEndpoint = readEndpoint")
    case True
    from assms 1 True
    have "w0 = on c removeListener_event RemoveListenerHook
                 (on c newListener_event NewListenerHook (forward_lifecycle wc w1))"
      by (auto simp add: Client_constructor_def Let_def)
    then show ?thesis
      using r1 by (intro exI [of _ "forward_lifecycle wc w1"]) simp
  next
    case False
    then obtain e where e: "readEndpoint = Some e"
      by (cases readEndpoint) (auto simp: falsy_endpoint_def)
    obtain rc w2 where 2: "resolve_endpoint e (forward_lifecycle wc w1) = (rc, w2)"
      by (cases "resolve_endpoint e (forward_lifecycle wc w1)")
    then have "registry w2 = []"
      using resolve_endpoint_registry [OF 2] r1 by simp
    then have r2: "registry (forward_lifecycle rc w2) = []" by simp
    from assms 1 2 False e
    have "w0 = on c removeListener_event RemoveListenerHook
                 (on c newListener_event NewListenerHook (forward_lifecycle rc w2))"
      by (auto simp add: Client_constructor_def Let_def)
    then show ?thesis
      using r2 by (intro exI [of _ "forward_lifecycle rc w2"]) simp
  qed
qed

lemma register_listeners:
  assumes "hooks_installed w"
  shows "listeners (on c event (Consumer n) w) e
           = (if e = event then listeners w event @ [Consumer n] else listeners w e)"
  unfolding on_consumer [OF assms] by (simp del: call_listener.simps)

lemma two_consumers:
  assumes h: "hooks_installed w0" and empty: "listenerCount w0 ClientEvent_Contract = 0"
  shows "attach_calls (fold (apply_registration c)
            [Register ClientEvent_Contract a, Register ClientEvent_Contract b] w0) (readClient c)
           = attach_calls w0 (readClient c) + 1"
    and "detach_calls (fold (apply_registration c)
            [Register ClientEvent_Contract a, Register ClientEvent_Contract b] w0) (readClient c)
           = detach_calls w0 (readClient c)"
    and "attach_calls (fold (apply_registration c)
            [Register ClientEvent_Contract a, Register ClientEvent_Contract b,
             Unregister ClientEvent_Contract a, Unregister ClientEvent_Contract b] w0) (readClient c)
           = attach_calls w0 (readClient c) + 1"
    and "detach_calls (fold (apply_registration c)
            [Register ClientEvent_Contract a, Register ClientEvent_Contract b,
             Unregister ClientEvent_Contract a, Unregister ClientEvent_Contract b] w0) (readClient c)
           = detach_calls w0 (readClient c) + 1"
proof -
  let ?C = ClientEvent_Contract
  let ?w1 = "on c ?C (Consumer a) w0"
  let ?w2 = "on c ?C (Consumer b) ?w1"
  let ?w3 = "removeListener c ?C (Consumer a) ?w2"
  let ?w4 = "removeListener c ?C (Consumer b) ?w3"
  have e0: "listeners w0 ?C = []" using empty by (simp add: listenerCount_def)
  have h1: "hooks_installed ?w1" using h by (rule register_step(1))
  have h2: "hooks_installed ?w2" using h1 by (rule register_step(1))
  have h3: "hooks_installed ?w3" using h2 by (rule unregister_step(1))
  have l1: "listeners ?w1 ?C = [Consumer a]" by (simp add: register_listeners [OF h] e0)
  have l2: "listeners ?w2 ?C = [Consumer a, Consumer b]" by (simp add: register_listeners [OF h1] l1)
  have c1: "listenerCount ?w1 ?C = 1" by (simp add: listenerCount_def l1)
  have c2: "listenerCount ?w2 ?C = 2" by (simp add: listenerCount_def l2)
  have c3: "listenerCount ?w3 ?C = 1"
    using unregister_step(2) [OF h2, of c ?C a ?C] by (simp add: l2 c2)
  have m3: "Consumer b \<in> set (listeners ?w3 ?C)"
    unfolding removeListener_consumer [OF h2, of a ?C c, simplified l2, simplified]
    by (simp del: call_listener.simps)
  have a1: "attach_calls ?w1 (readClient c) = attach_calls w0 (readClient c) + 1"
    by (simp add: register_step(3) [OF h] empty)
  have a2: "attach_calls ?w2 (readClient c) = attach_calls w0 (readClient c) + 1"
    by (simp add: register_step(3) [OF h1] c1 a1)
  have d2: "detach_calls ?w2 (readClient c) = detach_calls w0 (readClient c)"
    by (simp add: register_step(4) [OF h1] register_step(4) [OF h])
  have a4: "attach_calls ?w4 (readClient c) = attach_calls w0 (readClient c) + 1"
    by (simp add: unregister_step(3) [OF h3] unregister_step(3) [OF h2] a2)
  have d3: "detach_calls ?w3 (readClient c) = detach_calls w0 (readClient c)"
    by (simp add: unregister_step(4) [OF h2] c2 d2)
  have d4: "detach_calls ?w4 (readClient c) = detach_calls w0 (readClient c) + 1"
    using m3 by (simp add: unregister_step(4) [OF h3] c3 d3)
  show "attach_calls (fold (apply_registration c)
            [Register ?C a, Register ?C b] w0) (readClient c) = attach_calls w0 (readClient c) + 1"
    using a2 by simp
  show "detach_calls (fold (apply_registration c)
            [Register ?C a, Register ?C b] w0) (readClient c) = detach_calls w0 (readClient c)"
    using d2 by simp
  show "attach_calls (fold (apply_registration c)
            [Register ?C a, Register ?C b, Unregister ?C a, Unregister ?C b] w0) (readClient c)
           = attach_calls w0 (readClient c) + 1"
    using a4 by simp
  show "detach_calls (fold (apply_registration c)
            [Register ?C a, Register ?C b, Unregister ?C a, Unregister ?C b] w0) (readClient c)
           = detach_calls w0 (readClient c) + 1"
    using d4 by simp
qed

text \<open>
  Claim C5. For a client as its constructor leaves it, and after any sequence of
  registrations and removals of application callbacks: the notification handler is attached
  to the read channel if and only if a \<^verbatim>\<open>contractEvent\<close> listener is registered (the calls that
  attach it exceed the calls that detach it by one when the count is not 0, and by nothing
  when it is 0); a step attaches it exactly when the count goes from 0 to 1 and detaches it
  exactly when the count goes from 1 to 0; so registering two consumers makes one call that
  attaches and none that detaches, and removing both makes one call that detaches.
\<close>

theorem contract_subscription:
  "Client_constructor chain writeEndpoint readEndpoint w_init = (c, w0) \<longrightarrow>
     (let w = fold (apply_registration c) ops w0;
          w' = apply_registration c op w;
          rc = readClient c
      in attach_calls w rc + detach_calls w0 rc
           = detach_calls w rc + attach_calls w0 rc
             + (if listenerCount w ClientEvent_Contract = 0 then 0 else 1)
         \<and> attach_calls w' rc
             = attach_calls w rc
               + (if listenerCount w ClientEvent_Contract = 0
                     \<and> listenerCount w' ClientEvent_Contract = 1 then 1 else 0)
         \<and> detach_calls w' rc
             = detach_calls w rc
               + (if listenerCount w ClientEvent_Contract = 1
                     \<and> listenerCount w' ClientEvent_Contract = 0 then 1 else 0)
         \<and> (ops = [Register ClientEvent_Contract a, Register ClientEvent_Contract b]
              \<longrightarrow> attach_calls w rc = attach_calls w0 rc + 1
                  \<and> detach_calls w rc = detach_calls w0 rc)
         \<and> (ops = [Register ClientEvent_Contract a, Register ClientEvent_Contract b,
                    Unregister ClientEvent_Contract a, Unregister ClientEvent_Contract b]
              \<longrightarrow> attach_calls w rc = attach_calls w0 rc + 1
                  \<and> detach_calls w rc = detach_calls w0 rc + 1))"
proof
  assume "Client_constructor chain writeEndpoint readEndpoint w_init = (c, w0)"
  then obtain w3 where "registry w3 = []"
      and "w0 = on c removeListener_event RemoveListenerHook (on c newListener_event NewListenerHook w3)"
    using constructor_installs_hooks by blast
  then have h0: "hooks_installed w0" and c0: "listenerCount w0 ClientEvent_Contract = 0"
    using install_hooks [of w3 c] by simp_all
  let ?w = "fold (apply_registration c) ops w0"
  have inv: "hooks_installed ?w"
    "attach_calls ?w (readClient c) + detach_calls w0 (readClient c)
       = detach_calls ?w (readClient c) + attach_calls w0 (readClient c)
         + (if listenerCount ?w ClientEvent_Contract = 0 then 0 else 1)"
    using registrations_invariant [OF h0, of c ops] c0 by simp_all
  show "let w = fold (apply_registration c) ops w0;
          w' = apply_registration c op w;
          rc = readClient c
      in attach_calls w rc + detach_calls w0 rc
           = detach_calls w rc + attach_calls w0 rc
             + (if listenerCount w ClientEvent_Contract = 0 then 0 else 1)
         \<and> attach_calls w' rc
             = attach_calls w rc
               + (if listenerCount w ClientEvent_Contract = 0
                     \<and> listenerCount w' ClientEvent_Contract = 1 then 1 else 0)
         \<and> detach_calls w' rc
             = detach_calls w rc
               + (if listenerCount w ClientEvent_Contract = 1
                     \<and> listenerCount w' ClientEvent_Contract = 0 then 1 else 0)
         \<and> (ops = [Register ClientEvent_Contract a, Register ClientEvent_Contract b]
              \<longrightarrow> attach_calls w rc = attach_calls w0 rc + 1
                  \<and> detach_calls w rc = detach_calls w0 rc)
         \<and> (ops = [Register ClientEvent_Contract a, Register ClientEvent_Contract b,
                    Unregister ClientEvent_Contract a, Unregister ClientEvent_Contract b]
              \<longrightarrow> attach_calls w rc = attach_calls w0 rc + 1
                  \<and> detach_calls w rc = detach_calls w0 rc + 1)"
    unfolding Let_def
  proof (intro conjI impI)
    show "attach_calls ?w (readClient c) + detach_calls w0 (readClient c)
       = detach_calls ?w (readClient c) + attach_calls w0 (readClient c)
         + (if listenerCount ?w ClientEvent_Contract = 0 then 0 else 1)"
      by (rule inv(2))
    show "attach_calls (apply_registration c op ?w) (readClient c)
             = attach_calls ?w (readClient c)
               + (if listenerCount ?w ClientEvent_Contract = 0
                     \<and> listenerCount (apply_registration c op ?w) ClientEvent_Contract = 1 then 1 else 0)"
      by (rule registration_step(2) [OF inv(1)])
    show "detach_calls (apply_registration c op ?w) (readClient c)
             = detach_calls ?w (readClient c)
               + (if listenerCount ?w ClientEvent_Contract = 1
                     \<and> listenerCount (apply_registration c op ?w) ClientEvent_Contract = 0 then 1 else 0)"
      by (rule registration_step(3) [OF inv(1)])
  next
    assume "ops = [Register ClientEvent_Contract a, Register ClientEvent_Contract b]"
    then show "attach_calls ?w (readClient c) = attach_calls w0 (readClient c) + 1"
      and "detach_calls ?w (readClient c) = detach_calls w0 (readClient c)"
      using two_consumers(1,2) [OF h0 c0, of c a b] by simp_all
  next
    assume "ops = [Register ClientEvent_Contract a, Register ClientEvent_Contract b,
                    Unregister ClientEvent_Contract a, Unregister ClientEvent_Contract b]"
    then show "attach_calls ?w (readClient c) = attach_calls w0 (readClient c) + 1"
      and "detach_calls ?w (readClient c) = detach_calls w0 (readClient c) + 1"
      using two_consumers(3,4) [OF h0 c0, of c a b] by simp_all
  qed
qed

lemma example_construction_channels:
  "writeClient (fst example_construction) = 2"
  "readClient (fst example_construction) = 3"
  "calls (clients (snd example_construction) 3)
     = [On RPC_Error EmitNetError, On RPC_Connected EmitNetConnected,
        On RPC_Disconnected EmitNetDisconnected]"
  "registry (snd example_construction)
     = [(''newListener'', [NewListenerHook]), (''removeListener'', [RemoveListenerHook])]"
  by (simp_all add: example_construction_def Client_constructor_def Let_def resolve_endpoint_def
      new_WSRPCClient_def example_world_def falsy_endpoint_def forward_lifecycle_def rpc_on_def
      record_call_def on_def listeners_def set_listeners_def emit_registry_def
      newListener_event_def removeListener_event_def ClientEvent_Contract_def listenerCount_def)

theorem contract_subscription_witness:
  "readClient (fst example_construction) \<noteq> writeClient (fst example_construction)
   \<and> attach_calls (fold (apply_registration (fst example_construction))
         [Register ''contractEvent'' 1, Register ''contractEvent'' 2] (snd example_construction))
       (readClient (fst example_construction)) = 1
   \<and> detach_calls (fold (apply_registration (fst example_construction))
         [Register ''contractEvent'' 1, Register ''contractEvent'' 2] (snd example_construction))
       (readClient (fst example_construction)) = 0
   \<and> attach_calls (fold (apply_registration (fst example_construction))
         [Register ''contractEvent'' 1, Register ''contractEvent'' 2,
          Unregister ''contractEvent'' 1, Unregister ''contractEvent'' 2] (snd example_construction))
       (readClient (fst example_construction)) = 1
   \<and> detach_calls (fold (apply_registration (fst example_construction))
         [Register ''contractEvent'' 1, Register ''contractEvent'' 2,
          Unregister ''contractEvent'' 1, Unregister ''contractEvent'' 2] (snd example_construction))
       (readClient (fst example_construction)) = 1"
proof -
  let ?c = "fst example_construction" and ?w0 = "snd example_construction"
  have K: "Client_constructor ''default'' (Url ''ws://write'') (Some (Url ''ws://read'')) example_world
             = (?c, ?w0)"
    by (simp add: example_construction_def)
  have z: "attach_calls ?w0 (readClient ?c) = 0" "detach_calls ?w0 (readClient ?c) = 0"
    by (simp_all add: attach_calls_def detach_calls_def example_construction_channels)
  note two = contract_subscription [where ops = "[Register ClientEvent_Contract 1, Register ClientEvent_Contract 2]"
        and a = 1 and b = 2 and c = ?c and ?w0.0 = ?w0 and op = "Register ClientEvent_Contract 3",
        THEN mp, OF K, unfolded Let_def,
        THEN conjunct2, THEN conjunct2, THEN conjunct2, THEN conjunct1, THEN mp, OF refl]
  note four = contract_subscription [where ops = "[Register ClientEvent_Contract 1, Register ClientEvent_Contract 2,
                 Unregister ClientEvent_Contract 1, Unregister ClientEvent_Contract 2]"
        and a = 1 and b = 2 and c = ?c and ?w0.0 = ?w0 and op = "Register ClientEvent_Contract 3",
        THEN mp, OF K, unfolded Let_def,
        THEN conjunct2, THEN conjunct2, THEN conjunct2, THEN conjunct2, THEN mp, OF refl]
  show ?thesis
    using two four z
    by (simp add: ClientEvent_Contract_def example_construction_channels del: fold_simps)
qed

end
